theory Spec2Isabelle
  imports Main
begin

section \<open>Source ranges, the source context and errors\<close>

text \<open>
  The TorchScript frontend (\<^verbatim>\<open>torch/jit/frontend.py\<close>) translates a Python syntax tree
  into tree views. Every tree view and every frontend error carries a range of offsets
  into the source text of the unit.
\<close>

datatype source_range = SourceRange (range_start: int) (range_end: int)

text \<open>
  \<^verbatim>\<open>SourceContext(source, filename, file_lineno, leading_whitespace_len, uses_true_division)\<close>:
  the five constructor arguments, as \<^verbatim>\<open>get_jit_def\<close> passes them.
\<close>

record source_context =
  source :: string
  filename :: string
  file_lineno :: int
  leading_whitespace_len :: int
  uses_true_division :: bool

text \<open>
  Modelled from the spec: \<^verbatim>\<open>SourceContext.make_range\<close> and \<^verbatim>\<open>make_raw_range\<close> are
  declared outside \<^verbatim>\<open>frontend.py\<close>. The context "maps (line, column) pairs and raw byte
  offsets to Range values" and carries "a leading-whitespace-column offset (for re-indented
  snippets)". A raw range is the pair of offsets as given. A (line, start column, end
  column) triple is resolved against the offset at which that line (counted from 1) starts
  in the text, both columns shifted by the leading-whitespace offset; a line beyond the
  text resolves to the end of the text.
\<close>

fun offset_for_line :: "string \<Rightarrow> nat \<Rightarrow> nat" where
  "offset_for_line src 0 = 0"
| "offset_for_line [] (Suc n) = 0"
| "offset_for_line (ch # src) (Suc n) =
     Suc (offset_for_line src (if ch = CHR 0x0A then n else Suc n))"

definition make_raw_range :: "source_context \<Rightarrow> int \<Rightarrow> int \<Rightarrow> source_range" where
  "make_raw_range ctx start end = SourceRange start end"

definition make_range :: "source_context \<Rightarrow> int \<Rightarrow> int \<Rightarrow> int \<Rightarrow> source_range" where
  "make_range ctx line start_col end_col =
     (let line_start = int (offset_for_line (source ctx) (nat (line - 1)))
                       + leading_whitespace_len ctx
      in SourceRange (line_start + start_col) (line_start + end_col))"

text \<open>
  The exceptions the translation can end with. \<^verbatim>\<open>FrontendError\<close> and its subclasses
  \<^verbatim>\<open>NotSupportedError\<close> and \<^verbatim>\<open>UnsupportedNodeError\<close> carry a range (\<^verbatim>\<open>None\<close> in one
  place) and a message; the others are the interpreter's own exceptions, which the
  frontend raises explicitly (\<^verbatim>\<open>AssertionError\<close>, \<^verbatim>\<open>ValueError\<close>) or runs into
  (\<^verbatim>\<open>len(None)\<close>, an attribute of \<^verbatim>\<open>None\<close>, an index out of range, a missing key,
  \<^verbatim>\<open>rindex\<close> without a match). \<^verbatim>\<open>ReturnedNone\<close> stands for a handler that returned \<^verbatim>\<open>None\<close> where a tree
  view is expected (a comparison without operators, which the parser never produces).
\<close>

datatype error =
    FrontendError "source_range option" string
  | NotSupportedError "source_range option" string
  | UnsupportedNodeError "source_range option" string
  | AssertionError string
  | ValueError string
  | TypeError
  | AttributeError
  | IndexError
  | KeyError
  | ReturnedNone

text \<open>\<^verbatim>\<open>isinstance(e, NotSupportedError)\<close>: \<^verbatim>\<open>UnsupportedNodeError\<close> is a subclass.\<close>

fun is_NotSupportedError :: "error \<Rightarrow> bool" where
  "is_NotSupportedError (NotSupportedError r msg) = True"
| "is_NotSupportedError (UnsupportedNodeError r msg) = True"
| "is_NotSupportedError e = False"

text \<open>\<^verbatim>\<open>isinstance(e, FrontendError)\<close>: one of the three kinds of frontend diagnostic.\<close>

fun is_FrontendError :: "error \<Rightarrow> bool" where
  "is_FrontendError (FrontendError r msg) = True"
| "is_FrontendError (NotSupportedError r msg) = True"
| "is_FrontendError (UnsupportedNodeError r msg) = True"
| "is_FrontendError e = False"

fun error_range :: "error \<Rightarrow> source_range option" where
  "error_range (FrontendError r msg) = r"
| "error_range (NotSupportedError r msg) = r"
| "error_range (UnsupportedNodeError r msg) = r"
| "error_range e = None"

text \<open>Sequencing of computations that may raise: the first exception ends the run.\<close>

definition bind_err :: "error + 'a \<Rightarrow> ('a \<Rightarrow> error + 'b) \<Rightarrow> error + 'b" where
  "bind_err m f = (case m of Inl e \<Rightarrow> Inl e | Inr x \<Rightarrow> f x)"

lemma bind_err_Inl [simp]: "bind_err (Inl e) f = Inl e"
  by (simp add: bind_err_def)

lemma bind_err_Inr [simp]: "bind_err (Inr x) f = f x"
  by (simp add: bind_err_def)

lemma bind_err_cong [fundef_cong]:
  "m = m' \<Longrightarrow> (\<And>x. m' = Inr x \<Longrightarrow> f x = f' x) \<Longrightarrow> bind_err m f = bind_err m' f'"
  by (cases m') (simp_all add: bind_err_def)

text \<open>A list comprehension whose element expression may raise.\<close>

fun sequence_err :: "(error + 'a) list \<Rightarrow> error + 'a list" where
  "sequence_err [] = Inr []"
| "sequence_err (m # ms) =
     bind_err m (\<lambda>x. bind_err (sequence_err ms) (\<lambda>xs. Inr (x # xs)))"

section \<open>The Python syntax tree\<close>

datatype operator =
    ast_Add | ast_Sub | ast_Mult | ast_MatMult | ast_Div | ast_Mod | ast_Pow
  | ast_LShift | ast_RShift | ast_BitOr | ast_BitXor | ast_BitAnd | ast_FloorDiv

datatype unaryop = ast_Invert | ast_Not | ast_UAdd | ast_USub

datatype boolop = ast_And | ast_Or

datatype cmpop =
    ast_Eq | ast_NotEq | ast_Lt | ast_LtE | ast_Gt | ast_GtE
  | ast_Is | ast_IsNot | ast_In | ast_NotIn

text \<open>
  The value of a literal. A float and a value of any further type (bytes, complex) are
  carried as the text \<^verbatim>\<open>str\<close> gives for them.
\<close>

datatype py_constant =
    CNone | CBool bool | CInt int | CFloat string | CStr string | CEllipsis | COther string

text \<open>Expression classes for which \<^verbatim>\<open>ExprBuilder\<close> has no \<^verbatim>\<open>build_\<close> method.\<close>

datatype other_expr =
    ast_Lambda | ast_Set | ast_DictComp | ast_SetComp | ast_GeneratorExp
  | ast_Await | ast_Yield | ast_YieldFrom | ast_Bytes | ast_NamedExpr

text \<open>
  Every expression node starts with its \<^verbatim>\<open>lineno\<close> and \<^verbatim>\<open>col_offset\<close>; the other
  fields are those the builders read. The keys of a dictionary display hold \<^verbatim>\<open>None\<close>
  at a \<^verbatim>\<open>**\<close> entry.
\<close>

datatype expr =
    ast_Attribute int int expr string
  | ast_Call int int expr "expr list" "expr option" "keyword list"
  | ast_Ellipsis int int
  | ast_Name int int string
  | ast_NameConstant int int py_constant
  | ast_BinOp int int expr operator expr
  | ast_UnaryOp int int unaryop expr
  | ast_BoolOp int int boolop "expr list"
  | ast_IfExp int int expr expr expr
  | ast_Compare int int expr "cmpop list" "expr list"
  | ast_Subscript int int expr slice
  | ast_List int int "expr list"
  | ast_Tuple int int "expr list"
  | ast_Dict int int "expr option list" "expr list"
  | ast_Num int int py_constant
  | ast_Constant int int py_constant
  | ast_Str int int string
  | ast_JoinedStr int int "expr list"
  | ast_FormattedValue int int expr int "expr option"
  | ast_ListComp int int expr "comprehension list"
  | ast_Starred int int expr
  | ast_OtherExpr int int other_expr
and slice =
    ast_Index expr
  | ast_Slice "expr option" "expr option" "expr option"
  | ast_ExtSlice "slice list"
  | ast_EllipsisSlice
and keyword = ast_keyword "string option" expr
and comprehension = ast_comprehension expr expr "expr list"


text \<open>\<^verbatim>\<open>node.lineno\<close>, \<^verbatim>\<open>node.col_offset\<close> and \<^verbatim>\<open>node.__class__.__name__\<close>.\<close>

fun other_expr_name :: "other_expr \<Rightarrow> string" where
  "other_expr_name ast_Lambda = ''Lambda''"
| "other_expr_name ast_Set = ''Set''"
| "other_expr_name ast_DictComp = ''DictComp''"
| "other_expr_name ast_SetComp = ''SetComp''"
| "other_expr_name ast_GeneratorExp = ''GeneratorExp''"
| "other_expr_name ast_Await = ''Await''"
| "other_expr_name ast_Yield = ''Yield''"
| "other_expr_name ast_YieldFrom = ''YieldFrom''"
| "other_expr_name ast_Bytes = ''Bytes''"
| "other_expr_name ast_NamedExpr = ''NamedExpr''"

definition lineno :: "expr \<Rightarrow> int" where
  "lineno e = (case e of
     ast_Attribute l c v a \<Rightarrow> l | ast_Call l c f as s ks \<Rightarrow> l | ast_Ellipsis l c \<Rightarrow> l
   | ast_Name l c i \<Rightarrow> l | ast_NameConstant l c v \<Rightarrow> l | ast_BinOp l c x op y \<Rightarrow> l
   | ast_UnaryOp l c op x \<Rightarrow> l | ast_BoolOp l c op vs \<Rightarrow> l | ast_IfExp l c t b oe \<Rightarrow> l
   | ast_Compare l c x ops cs \<Rightarrow> l | ast_Subscript l c v s \<Rightarrow> l | ast_List l c es \<Rightarrow> l
   | ast_Tuple l c es \<Rightarrow> l | ast_Dict l c ks vs \<Rightarrow> l | ast_Num l c n \<Rightarrow> l
   | ast_Constant l c v \<Rightarrow> l | ast_Str l c s \<Rightarrow> l | ast_JoinedStr l c vs \<Rightarrow> l
   | ast_FormattedValue l c v cv fs \<Rightarrow> l | ast_ListComp l c e gs \<Rightarrow> l
   | ast_Starred l c v \<Rightarrow> l | ast_OtherExpr l c k \<Rightarrow> l)"

definition col_offset :: "expr \<Rightarrow> int" where
  "col_offset e = (case e of
     ast_Attribute l c v a \<Rightarrow> c | ast_Call l c f as s ks \<Rightarrow> c | ast_Ellipsis l c \<Rightarrow> c
   | ast_Name l c i \<Rightarrow> c | ast_NameConstant l c v \<Rightarrow> c | ast_BinOp l c x op y \<Rightarrow> c
   | ast_UnaryOp l c op x \<Rightarrow> c | ast_BoolOp l c op vs \<Rightarrow> c | ast_IfExp l c t b oe \<Rightarrow> c
   | ast_Compare l c x ops cs \<Rightarrow> c | ast_Subscript l c v s \<Rightarrow> c | ast_List l c es \<Rightarrow> c
   | ast_Tuple l c es \<Rightarrow> c | ast_Dict l c ks vs \<Rightarrow> c | ast_Num l c n \<Rightarrow> c
   | ast_Constant l c v \<Rightarrow> c | ast_Str l c s \<Rightarrow> c | ast_JoinedStr l c vs \<Rightarrow> c
   | ast_FormattedValue l c v cv fs \<Rightarrow> c | ast_ListComp l c e gs \<Rightarrow> c
   | ast_Starred l c v \<Rightarrow> c | ast_OtherExpr l c k \<Rightarrow> c)"

definition class_name :: "expr \<Rightarrow> string" where
  "class_name e = (case e of
     ast_Attribute l c v a \<Rightarrow> ''Attribute'' | ast_Call l c f as s ks \<Rightarrow> ''Call''
   | ast_Ellipsis l c \<Rightarrow> ''Ellipsis'' | ast_Name l c i \<Rightarrow> ''Name''
   | ast_NameConstant l c v \<Rightarrow> ''NameConstant'' | ast_BinOp l c x op y \<Rightarrow> ''BinOp''
   | ast_UnaryOp l c op x \<Rightarrow> ''UnaryOp'' | ast_BoolOp l c op vs \<Rightarrow> ''BoolOp''
   | ast_IfExp l c t b oe \<Rightarrow> ''IfExp'' | ast_Compare l c x ops cs \<Rightarrow> ''Compare''
   | ast_Subscript l c v s \<Rightarrow> ''Subscript'' | ast_List l c es \<Rightarrow> ''List''
   | ast_Tuple l c es \<Rightarrow> ''Tuple'' | ast_Dict l c ks vs \<Rightarrow> ''Dict''
   | ast_Num l c n \<Rightarrow> ''Num'' | ast_Constant l c v \<Rightarrow> ''Constant''
   | ast_Str l c s \<Rightarrow> ''Str'' | ast_JoinedStr l c vs \<Rightarrow> ''JoinedStr''
   | ast_FormattedValue l c v cv fs \<Rightarrow> ''FormattedValue''
   | ast_ListComp l c e gs \<Rightarrow> ''ListComp'' | ast_Starred l c v \<Rightarrow> ''Starred''
   | ast_OtherExpr l c k \<Rightarrow> other_expr_name k)"

text \<open>\<^verbatim>\<open>isinstance(e, ast.Tuple)\<close> and \<^verbatim>\<open>isinstance(e, ast.List)\<close>.\<close>

definition is_Tuple :: "expr \<Rightarrow> bool" where
  "is_Tuple e = (case e of ast_Tuple l c es \<Rightarrow> True | _ \<Rightarrow> False)"

definition is_List :: "expr \<Rightarrow> bool" where
  "is_List e = (case e of ast_List l c es \<Rightarrow> True | _ \<Rightarrow> False)"

text \<open>Statement classes for which \<^verbatim>\<open>StmtBuilder\<close> has no \<^verbatim>\<open>build_\<close> method.\<close>

datatype other_stmt =
    ast_FunctionDef | ast_AsyncFunctionDef | ast_ClassDef | ast_AsyncFor | ast_AsyncWith
  | ast_Try | ast_Import | ast_ImportFrom | ast_Global | ast_Nonlocal

datatype withitem = ast_withitem expr "expr option"

datatype stmt =
    ast_Expr int int expr
  | ast_Assign int int "expr list" expr
  | ast_AnnAssign int int expr expr "expr option"
  | ast_Delete int int "expr list"
  | ast_Return int int "expr option"
  | ast_Raise int int "expr option"
  | ast_Assert int int expr "expr option"
  | ast_AugAssign int int expr operator expr
  | ast_While int int expr "stmt list" "stmt list"
  | ast_For int int expr expr "stmt list"
  | ast_If int int expr "stmt list" "stmt list"
  | ast_Print int int "expr option" "expr list"
  | ast_Pass int int
  | ast_Break int int
  | ast_Continue int int
  | ast_With int int "withitem list" "stmt list"
  | ast_OtherStmt int int other_stmt

text \<open>A parameter (\<^verbatim>\<open>ast.arg\<close>) and a parameter list (\<^verbatim>\<open>ast.arguments\<close>).\<close>

datatype arg = ast_arg int int string "expr option"

record arguments =
  args :: "arg list"
  vararg :: "arg option"
  kwonlyargs :: "arg list"
  kw_defaults :: "expr option list"
  kwarg :: "arg option"
  defaults :: "expr list"

section \<open>Tree views\<close>

text \<open>
  The tree-view constructors \<^verbatim>\<open>frontend.py\<close> imports from \<^verbatim>\<open>torch._C._jit_tree_views\<close>,
  each with the arguments the builders pass, in that order.
\<close>

datatype ident = Ident source_range string

datatype tree =
    Var ident
  | TrueLiteral source_range
  | FalseLiteral source_range
  | NoneLiteral source_range
  | Dots source_range
  | Select tree ident
  | Apply tree "tree list" "attribute list"
  | Starred source_range tree
  | ListLiteral source_range "tree list"
  | TupleLiteral source_range "tree list"
  | DictLiteral source_range "tree list" "tree list"
  | Const source_range string
  | StringLiteral source_range string
  | ListComp source_range tree tree tree
  | BinOp string tree tree
  | UnaryOp source_range string tree
  | SliceExpr source_range "tree option" "tree option" "tree option"
  | Subscript tree "tree list"
  | TernaryIf tree tree tree
  | EmptyTypeAnnotation source_range
and attribute = Attribute ident tree

datatype with_item = WithItem source_range tree "tree option"

datatype stmt_tree =
    ExprStmt tree
  | Assign "tree list" tree "tree option"
  | Delete tree
  | Return source_range "tree option"
  | Raise source_range tree
  | Assert source_range tree "tree option"
  | AugAssign tree string tree
  | While source_range tree "stmt_tree list"
  | For source_range "tree list" "tree list" "stmt_tree list"
  | If_stmt source_range tree "stmt_tree list" "stmt_tree list"
  | Pass source_range
  | Break source_range
  | Continue source_range
  | With source_range "with_item list" "stmt_tree list"

datatype param = Param tree ident bool

text \<open>
  Modelled from the spec: the method \<^verbatim>\<open>range()\<close> of a tree view is declared outside
  \<^verbatim>\<open>frontend.py\<close>. "Every produced IR node and every diagnostic carries exactly one"
  range, and "Range values are derived". A view built with a range reports that range; a
  variable reports the range of its identifier; a view built from sub-views only reports
  the range of the first of them (the left operand, the base, the callee, the condition).
\<close>

fun range_of :: "tree \<Rightarrow> source_range" where
  "range_of (Var (Ident r name)) = r"
| "range_of (TrueLiteral r) = r"
| "range_of (FalseLiteral r) = r"
| "range_of (NoneLiteral r) = r"
| "range_of (Dots r) = r"
| "range_of (Select base name) = range_of base"
| "range_of (Apply func inputs attributes) = range_of func"
| "range_of (Starred r e) = r"
| "range_of (ListLiteral r es) = r"
| "range_of (TupleLiteral r es) = r"
| "range_of (DictLiteral r ks vs) = r"
| "range_of (Const r v) = r"
| "range_of (StringLiteral r v) = r"
| "range_of (ListComp r elt target iter) = r"
| "range_of (BinOp kind lhs rhs) = range_of lhs"
| "range_of (UnaryOp r kind e) = r"
| "range_of (SliceExpr r lower upper step) = r"
| "range_of (Subscript base sub_exprs) = range_of base"
| "range_of (TernaryIf cond true_expr false_expr) = range_of cond"
| "range_of (EmptyTypeAnnotation r) = r"


section \<open>Tables and helpers of the frontend\<close>

definition reserved_prefix :: string where
  "reserved_prefix = ''__jit''"

text \<open>\<^verbatim>\<open>pretty_node_names\<close> and \<^verbatim>\<open>node_start_tokens\<close>, keyed by the name of the class.\<close>

definition pretty_node_names :: "(string \<times> string) list" where
  "pretty_node_names =
     [(''FunctionDef'', ''function definitions''), (''For'', ''for loops''),
      (''Delete'', ''del statements''), (''ClassDef'', ''class definitions''),
      (''With'', ''with statements''), (''Raise'', ''raise statements''),
      (''Assert'', ''assertions''), (''Import'', ''import statements''),
      (''ImportFrom'', ''import statements''), (''Global'', ''global variables''),
      (''Break'', ''break statements''), (''Continue'', ''continue statements''),
      (''AsyncFunctionDef'', ''async function definitions''),
      (''AsyncFor'', ''async for loops''), (''AsyncWith'', ''async with statements''),
      (''Try'', ''try blocks''), (''Nonlocal'', ''nonlocal variables''),
      (''AnnAssign'', ''annotated assignments'')]"

definition node_start_tokens :: "(string \<times> string) list" where
  "node_start_tokens =
     [(''FunctionDef'', ''def''), (''For'', ''for''), (''Delete'', ''del''),
      (''ClassDef'', ''class''), (''With'', ''with''), (''Raise'', ''raise''),
      (''Assert'', ''assert''), (''Import'', ''import''), (''ImportFrom'', ''from''),
      (''Global'', ''global''), (''Break'', ''break''), (''Continue'', ''continue''),
      (''AsyncFunctionDef'', ''async def''), (''AsyncFor'', ''async for''),
      (''AsyncWith'', ''async with''), (''Try'', ''try''), (''Nonlocal'', ''nonlocal'')]"

text \<open>\<^verbatim>\<open>d.get(key, default)\<close> on such a table.\<close>

definition dict_get :: "(string \<times> string) list \<Rightarrow> string \<Rightarrow> string \<Rightarrow> string" where
  "dict_get d key dflt = (case map_of d key of None \<Rightarrow> dflt | Some v \<Rightarrow> v)"

text \<open>
  \<^verbatim>\<open>UnsupportedNodeError(ctx, offending_node, reason)\<close>: the constructor reads
  \<^verbatim>\<open>offending_node.lineno\<close> and \<^verbatim>\<open>offending_node.col_offset\<close>, which \<^verbatim>\<open>None\<close> does not
  have; the position is \<^verbatim>\<open>None\<close> for such a node, and the constructor then ends with
  \<^verbatim>\<open>AttributeError\<close> instead of returning the frontend error.
\<close>

definition UnsupportedNodeError_init ::
  "source_context \<Rightarrow> string \<Rightarrow> (int \<times> int) option \<Rightarrow> string \<Rightarrow> error" where
  "UnsupportedNodeError_init ctx node_type position reason =
     (let range_len = int (length (dict_get node_start_tokens node_type '' ''))
      in case position of
           None \<Rightarrow> AttributeError
         | Some (line, col) \<Rightarrow>
             (let source_range = make_range ctx line col (col + range_len);
                  feature_name = dict_get pretty_node_names node_type node_type;
                  msg = feature_name @ '' '' @ (if reason \<noteq> [] then reason @ '' '' else [])
                        @ ''aren'' @ [CHR 0x27] @ ''t supported''
              in UnsupportedNodeError (Some source_range) msg))"

text \<open>The decimal text of an integer, as \<^verbatim>\<open>str\<close> gives it.\<close>

function str_nat :: "nat \<Rightarrow> string" where
  "str_nat n = (if n < 10 then [''0123456789'' ! n]
                else str_nat (n div 10) @ [''0123456789'' ! (n mod 10)])"
  by pat_completeness auto
termination
  by (relation "measure id") auto

definition str_int :: "int \<Rightarrow> string" where
  "str_int i = (if i < 0 then CHR ''-'' # str_nat (nat (- i)) else str_nat (nat i))"

fun py_str :: "py_constant \<Rightarrow> string" where
  "py_str CNone = ''None''"
| "py_str (CBool b) = (if b then ''True'' else ''False'')"
| "py_str (CInt i) = str_int i"
| "py_str (CFloat s) = s"
| "py_str (CStr s) = s"
| "py_str CEllipsis = ''Ellipsis''"
| "py_str (COther s) = s"

text \<open>\<^verbatim>\<open>len(x)\<close> where \<^verbatim>\<open>x\<close> may be \<^verbatim>\<open>None\<close>: \<^verbatim>\<open>len(None)\<close> raises \<^verbatim>\<open>TypeError\<close>.\<close>

fun py_len :: "string option \<Rightarrow> error + int" where
  "py_len None = Inl TypeError"
| "py_len (Some s) = Inr (int (length s))"

text \<open>\<^verbatim>\<open>s.startswith(prefix)\<close>.\<close>

definition startswith :: "string \<Rightarrow> string \<Rightarrow> bool" where
  "startswith s pre = (take (length pre) s = pre)"

text \<open>
  \<^verbatim>\<open>get_char\<close> of \<^verbatim>\<open>build_Attribute\<close>: indexing into the bytes of the source, a negative
  index counting from the end, \<^verbatim>\<open>IndexError\<close> (here \<^verbatim>\<open>None\<close>) outside.
\<close>

definition get_char :: "string \<Rightarrow> int \<Rightarrow> char option" where
  "get_char src index =
     (let n = int (length src); j = (if index < 0 then n + index else index)
      in if 0 \<le> j \<and> j < n then Some (src ! nat j) else None)"

definition string_whitespace :: string where
  "string_whitespace = [CHR '' '', CHR 0x09, CHR 0x0A, CHR 0x0D, CHR 0x0B, CHR 0x0C]"

text \<open>
  The loop \<^verbatim>\<open>while get_char(start_pos) in string.whitespace: start_pos += 1\<close>; \<^verbatim>\<open>None\<close>
  when it runs off the text.
\<close>

function skip_whitespace :: "string \<Rightarrow> int \<Rightarrow> int option" where
  "skip_whitespace src start_pos =
     (case get_char src start_pos of
        None \<Rightarrow> None
      | Some ch \<Rightarrow> if ch \<in> set string_whitespace then skip_whitespace src (start_pos + 1)
                  else Some start_pos)"
  by pat_completeness auto
termination
  by (relation "measure (\<lambda>(src, pos). nat (int (length src) - pos))")
     (auto simp: get_char_def Let_def split: if_splits)

text \<open>
  \<^verbatim>\<open>s[:pos]\<close> and \<^verbatim>\<open>s.rindex(substr)\<close>: the highest index at which \<^verbatim>\<open>substr\<close> occurs,
  \<^verbatim>\<open>ValueError\<close> (here \<^verbatim>\<open>None\<close>) when it does not occur.
\<close>

definition slice_to :: "string \<Rightarrow> int \<Rightarrow> string" where
  "slice_to s pos = (if pos < 0 then take (nat (int (length s) + pos)) s else take (nat pos) s)"

definition rindex :: "string \<Rightarrow> string \<Rightarrow> nat option" where
  "rindex s substr =
     (case filter (\<lambda>i. take (length substr) (drop i s) = substr)
                  (rev [0 ..< Suc (length s) - length substr]) of
        [] \<Rightarrow> None
      | i # _ \<Rightarrow> Some i)"

definition find_before ::
  "source_context \<Rightarrow> int \<Rightarrow> string \<Rightarrow> int \<times> int \<Rightarrow> error + source_range" where
  "find_before ctx pos substr offsets =
     (case rindex (slice_to (source ctx) pos) substr of
        None \<Rightarrow> Inl (ValueError ''substring not found'')
      | Some new_pos \<Rightarrow>
          Inr (make_raw_range ctx (int new_pos + fst offsets)
                 (int new_pos + int (length substr) + snd offsets)))"

text \<open>The operator tables of \<^verbatim>\<open>ExprBuilder\<close> and \<^verbatim>\<open>StmtBuilder\<close>, and \<^verbatim>\<open>op.__name__\<close>.\<close>

fun binop_map :: "operator \<Rightarrow> string option" where
  "binop_map ast_Add = Some ''+''"
| "binop_map ast_Sub = Some ''-''"
| "binop_map ast_Mult = Some ''*''"
| "binop_map ast_Div = Some ''/''"
| "binop_map ast_Pow = Some ''**''"
| "binop_map ast_Mod = Some ''%''"
| "binop_map ast_FloorDiv = Some ''//''"
| "binop_map ast_BitAnd = Some ''&''"
| "binop_map ast_BitXor = Some ''^''"
| "binop_map ast_BitOr = Some ''|''"
| "binop_map ast_LShift = Some ''<<''"
| "binop_map ast_RShift = Some ''>>''"
| "binop_map ast_MatMult = Some ''@''"

fun augassign_map :: "operator \<Rightarrow> string option" where
  "augassign_map ast_Add = Some ''+''"
| "augassign_map ast_Sub = Some ''-''"
| "augassign_map ast_Mult = Some ''*''"
| "augassign_map ast_Div = Some ''/''"
| "augassign_map ast_Mod = Some ''%''"
| "augassign_map op = None"

fun unop_map :: "unaryop \<Rightarrow> string option" where
  "unop_map ast_Not = Some ''not''"
| "unop_map ast_USub = Some ''-''"
| "unop_map ast_Invert = Some ''~''"
| "unop_map ast_UAdd = None"

fun boolop_map :: "boolop \<Rightarrow> string option" where
  "boolop_map ast_And = Some ''and''"
| "boolop_map ast_Or = Some ''or''"

fun cmpop_map :: "cmpop \<Rightarrow> string option" where
  "cmpop_map ast_Eq = Some ''==''"
| "cmpop_map ast_NotEq = Some ''!=''"
| "cmpop_map ast_LtE = Some ''<=''"
| "cmpop_map ast_Lt = Some ''<''"
| "cmpop_map ast_GtE = Some ''>=''"
| "cmpop_map ast_Gt = Some ''>''"
| "cmpop_map ast_Is = Some ''is''"
| "cmpop_map ast_IsNot = Some ''is not''"
| "cmpop_map ast_In = Some ''in''"
| "cmpop_map ast_NotIn = Some ''not in''"

fun operator_name :: "operator \<Rightarrow> string" where
  "operator_name ast_Add = ''Add''"
| "operator_name ast_Sub = ''Sub''"
| "operator_name ast_Mult = ''Mult''"
| "operator_name ast_MatMult = ''MatMult''"
| "operator_name ast_Div = ''Div''"
| "operator_name ast_Mod = ''Mod''"
| "operator_name ast_Pow = ''Pow''"
| "operator_name ast_LShift = ''LShift''"
| "operator_name ast_RShift = ''RShift''"
| "operator_name ast_BitOr = ''BitOr''"
| "operator_name ast_BitXor = ''BitXor''"
| "operator_name ast_BitAnd = ''BitAnd''"
| "operator_name ast_FloorDiv = ''FloorDiv''"

fun unaryop_name :: "unaryop \<Rightarrow> string" where
  "unaryop_name ast_Invert = ''Invert''"
| "unaryop_name ast_Not = ''Not''"
| "unaryop_name ast_UAdd = ''UAdd''"
| "unaryop_name ast_USub = ''USub''"

fun boolop_name :: "boolop \<Rightarrow> string" where
  "boolop_name ast_And = ''And''"
| "boolop_name ast_Or = ''Or''"

fun cmpop_name :: "cmpop \<Rightarrow> string" where
  "cmpop_name ast_Eq = ''Eq''"
| "cmpop_name ast_NotEq = ''NotEq''"
| "cmpop_name ast_Lt = ''Lt''"
| "cmpop_name ast_LtE = ''LtE''"
| "cmpop_name ast_Gt = ''Gt''"
| "cmpop_name ast_GtE = ''GtE''"
| "cmpop_name ast_Is = ''Is''"
| "cmpop_name ast_IsNot = ''IsNot''"
| "cmpop_name ast_In = ''In''"
| "cmpop_name ast_NotIn = ''NotIn''"


section \<open>\<^verbatim>\<open>ExprBuilder\<close>\<close>

text \<open>The handlers that do not recurse into sub-expressions.\<close>

definition build_Ellipsis :: "source_context \<Rightarrow> int \<Rightarrow> int \<Rightarrow> error + tree" where
  "build_Ellipsis ctx l c = Inr (Dots (make_range ctx l c (c + 3)))"

definition build_Name :: "source_context \<Rightarrow> int \<Rightarrow> int \<Rightarrow> string \<Rightarrow> error + tree" where
  "build_Name ctx l c name =
     (let r = make_range ctx l c (c + int (length name))
      in if startswith name reserved_prefix then
           Inl (NotSupportedError (Some r)
                  (''names of variables used in JIT-ed functions can'' @ [CHR 0x27]
                   @ ''t start with '' @ reserved_prefix))
         else if name = ''True'' then Inr (TrueLiteral r)
         else if name = ''False'' then Inr (FalseLiteral r)
         else if name = ''None'' then Inr (NoneLiteral r)
         else Inr (Var (Ident r name)))"

definition build_NameConstant ::
  "source_context \<Rightarrow> int \<Rightarrow> int \<Rightarrow> py_constant \<Rightarrow> error + tree" where
  "build_NameConstant ctx l c v =
     (let r = make_range ctx l c (c + int (length (py_str v)))
      in if v = CBool True then Inr (TrueLiteral r)
         else if v = CBool False then Inr (FalseLiteral r)
         else if v = CNone then Inr (NoneLiteral r)
         else Inl (ValueError (''Name constant value unsupported: '' @ py_str v)))"

definition build_Num :: "source_context \<Rightarrow> int \<Rightarrow> int \<Rightarrow> py_constant \<Rightarrow> error + tree" where
  "build_Num ctx l c n =
     (let v = py_str n;
          r = make_range ctx l c (c + int (length v))
      in Inr (Const r v))"

definition build_Str :: "source_context \<Rightarrow> int \<Rightarrow> int \<Rightarrow> string \<Rightarrow> error + tree" where
  "build_Str ctx l c s =
     (let r = make_range ctx l c (c + 1)
      in Inr (StringLiteral r s))"

definition build_Constant ::
  "source_context \<Rightarrow> int \<Rightarrow> int \<Rightarrow> py_constant \<Rightarrow> error + tree" where
  "build_Constant ctx l c v =
     (case v of
        CNone \<Rightarrow> build_NameConstant ctx l c v
      | CBool b \<Rightarrow> build_NameConstant ctx l c v
      | CInt i \<Rightarrow> build_Num ctx l c v
      | CFloat f \<Rightarrow> build_Num ctx l c v
      | CStr s \<Rightarrow> build_Str ctx l c s
      | CEllipsis \<Rightarrow> build_Ellipsis ctx l c
      | COther s \<Rightarrow>
          Inl (FrontendError (Some (make_range ctx l c (c + int (length (py_str v)))))
                 ''Unknown Constant expression type''))"

text \<open>
  The loop of \<^verbatim>\<open>build_Compare\<close> over \<^verbatim>\<open>zip(operands, expr.ops, operands[1:])\<close>, with
  \<^verbatim>\<open>result\<close> (at first \<^verbatim>\<open>None\<close>) as its state.
\<close>

fun build_Compare_loop ::
  "source_context \<Rightarrow> (tree \<times> cmpop \<times> tree) list \<Rightarrow> tree option \<Rightarrow> error + tree option" where
  "build_Compare_loop ctx [] result = Inr result"
| "build_Compare_loop ctx ((lhs, op, rhs) # rest) result =
     (let op_token = cmpop_map op;
          r = make_raw_range ctx (range_end (range_of lhs)) (range_start (range_of rhs))
      in case op_token of
           None \<Rightarrow>
             Inl (NotSupportedError (Some r)
                    (''unsupported comparison operator: '' @ cmpop_name op))
         | Some tok \<Rightarrow>
             (let cmp_expr = (if op = ast_NotIn then UnaryOp r ''not'' (BinOp ''in'' lhs rhs)
                              else BinOp tok lhs rhs)
              in build_Compare_loop ctx rest
                   (case result of
                      None \<Rightarrow> Some cmp_expr
                    | Some res \<Rightarrow> Some (BinOp ''and'' res cmp_expr))))"

text \<open>
  \<^verbatim>\<open>build_expr = ExprBuilder()\<close>: the dispatch of \<^verbatim>\<open>Builder.__call__\<close> on the class of
  the node, one equation for each handler. \<^verbatim>\<open>build_expr_node\<close> is the same call at a
  place where the node may be \<^verbatim>\<open>None\<close>: no handler is found for it, and the constructor
  of \<^verbatim>\<open>UnsupportedNodeError\<close> fails. \<^verbatim>\<open>build_SliceExpr\<close>, \<^verbatim>\<open>build_Index\<close> and
  \<^verbatim>\<open>build_ExtSlice\<close> are the local functions of \<^verbatim>\<open>build_Subscript\<close>; each reads the
  fields of the node it is given, which another kind of node does not have.
  Where \<^verbatim>\<open>build_JoinedStr\<close> tests \<^verbatim>\<open>isinstance(value, ast.Str)\<close>, a \<^verbatim>\<open>Constant\<close>
  holding a string passes as well (as it does in the Python version whose parser
  produces \<^verbatim>\<open>Constant\<close> nodes).
\<close>

function (sequential) build_expr :: "source_context \<Rightarrow> expr \<Rightarrow> error + tree"
  and build_expr_node :: "source_context \<Rightarrow> expr option \<Rightarrow> error + tree"
  and build_keyword :: "source_context \<Rightarrow> keyword \<Rightarrow> error + attribute"
  and build_SliceExpr :: "source_context \<Rightarrow> tree \<Rightarrow> slice \<Rightarrow> error + tree"
  and build_Index :: "source_context \<Rightarrow> tree \<Rightarrow> slice \<Rightarrow> error + tree"
  and build_ExtSlice_dim :: "source_context \<Rightarrow> tree \<Rightarrow> slice \<Rightarrow> error + tree"
  and build_ExtSlice :: "source_context \<Rightarrow> tree \<Rightarrow> slice \<Rightarrow> error + tree list"
  and build_JoinedStr_value :: "source_context \<Rightarrow> expr \<Rightarrow> error + string \<times> tree list"
where
  "build_expr ctx (ast_Attribute l c v attr) =
     bind_err (build_expr ctx v) (\<lambda>base.
       case skip_whitespace (source ctx) (range_end (range_of base) + 1) of
         None \<Rightarrow> Inl IndexError
       | Some start_pos \<Rightarrow>
           (let end_pos = start_pos + int (length attr);
                name_range = make_raw_range ctx start_pos end_pos
            in Inr (Select base (Ident name_range attr))))"
| "build_expr ctx (ast_Call l c func call_args starargs keywords) =
     bind_err (build_expr ctx func) (\<lambda>func'.
     bind_err (sequence_err (map (build_expr ctx) call_args)) (\<lambda>args'.
     bind_err (case starargs of
                 None \<Rightarrow> Inr args'
               | Some s \<Rightarrow>
                   bind_err (build_expr ctx s) (\<lambda>stararg_expr.
                     Inr (args' @ [Starred (range_of stararg_expr) stararg_expr]))) (\<lambda>args''.
     bind_err (sequence_err (map (build_keyword ctx) keywords)) (\<lambda>kwargs.
       Inr (Apply func' args'' kwargs)))))"
| "build_expr ctx (ast_Ellipsis l c) = build_Ellipsis ctx l c"
| "build_expr ctx (ast_Name l c name) = build_Name ctx l c name"
| "build_expr ctx (ast_NameConstant l c v) = build_NameConstant ctx l c v"
| "build_expr ctx (ast_BinOp l c left op right) =
     bind_err (build_expr ctx left) (\<lambda>lhs.
     bind_err (build_expr ctx right) (\<lambda>rhs.
       if op = ast_Div \<and> \<not> uses_true_division ctx then
         (let err_range = make_raw_range ctx (range_end (range_of lhs)) (range_start (range_of rhs))
          in Inl (FrontendError (Some err_range)
                    (''Division of ints in TorchScript uses Python 3 true ''
                     @ ''division semantics. Please put `from __future__ ''
                     @ ''import division` at the top of your file'')))
       else
         (case binop_map op of
            None \<Rightarrow>
              (let err_range = make_raw_range ctx (range_end (range_of lhs))
                                 (range_start (range_of rhs))
               in Inl (NotSupportedError (Some err_range)
                         (''unsupported binary operator: '' @ operator_name op)))
          | Some op_token \<Rightarrow> Inr (BinOp op_token lhs rhs))))"
| "build_expr ctx (ast_UnaryOp l c op operand) =
     bind_err (build_expr ctx operand) (\<lambda>sub_expr.
       (let op_token = unop_map op
        in bind_err (py_len op_token) (\<lambda>n.
             (let r = make_range ctx l c (c + n)
              in case op_token of
                   None \<Rightarrow>
                     (let err_range = make_raw_range ctx (range_start r)
                                        (range_end (range_of sub_expr))
                      in Inl (NotSupportedError (Some err_range)
                                (''unsupported unary operator: '' @ unaryop_name op)))
                 | Some tok \<Rightarrow> Inr (UnaryOp r tok sub_expr)))))"
| "build_expr ctx (ast_BoolOp l c op vs) =
     (if length vs < 2 then
        Inl (AssertionError (''expected at least 2 values in BoolOp, but got ''
                             @ str_nat (length vs)))
      else
        bind_err (sequence_err (map (build_expr ctx) vs)) (\<lambda>sub_exprs.
          case boolop_map op of
            None \<Rightarrow>
              (let err_range = make_raw_range ctx (range_end (range_of (sub_exprs ! 0)))
                                 (range_start (range_of (sub_exprs ! 1)))
               in Inl (NotSupportedError (Some err_range)
                         (''unsupported boolean operator: '' @ boolop_name op)))
          | Some op_token \<Rightarrow>
              Inr (foldl (\<lambda>lhs rhs. BinOp op_token lhs rhs) (sub_exprs ! 0) (drop 1 sub_exprs))))"
| "build_expr ctx (ast_IfExp l c test body orelse) =
     bind_err (build_expr ctx test) (\<lambda>test'.
     bind_err (build_expr ctx body) (\<lambda>body'.
     bind_err (build_expr ctx orelse) (\<lambda>orelse'.
       Inr (TernaryIf test' body' orelse'))))"
| "build_expr ctx (ast_Compare l c left ops comparators) =
     bind_err (sequence_err (map (build_expr ctx) (left # comparators))) (\<lambda>operands.
     bind_err (build_Compare_loop ctx (zip operands (zip ops (drop 1 operands))) None) (\<lambda>result.
       case result of None \<Rightarrow> Inl ReturnedNone | Some res \<Rightarrow> Inr res))"
| "build_expr ctx (ast_Subscript l c v sl) =
     bind_err (build_expr ctx v) (\<lambda>base.
       case sl of
         ast_Index iv \<Rightarrow>
           (case iv of
              ast_Tuple tline tcol elts \<Rightarrow>
                bind_err (sequence_err (map (build_expr ctx) elts)) (\<lambda>indices.
                  Inr (Subscript base indices))
            | _ \<Rightarrow>
                bind_err (build_expr ctx iv) (\<lambda>index. Inr (Subscript base [index])))
       | ast_Slice lower upper step \<Rightarrow>
           bind_err (build_SliceExpr ctx base sl) (\<lambda>slice_expr.
             Inr (Subscript base [slice_expr]))
       | ast_ExtSlice dims \<Rightarrow>
           bind_err (build_ExtSlice ctx base sl) (\<lambda>sub_exprs. Inr (Subscript base sub_exprs))
       | ast_EllipsisSlice \<Rightarrow>
           Inl (NotSupportedError (Some (range_of base)) ''ellipsis is not supported''))"
| "build_expr ctx (ast_List l c elts) =
     bind_err (sequence_err (map (build_expr ctx) elts)) (\<lambda>elts'.
       Inr (ListLiteral (make_range ctx l c (c + 1)) elts'))"
| "build_expr ctx (ast_Tuple l c elts) =
     bind_err (sequence_err (map (build_expr ctx) elts)) (\<lambda>elts'.
       Inr (TupleLiteral (make_range ctx l c (c + 1)) elts'))"
| "build_expr ctx (ast_Dict l c ks vs) =
     bind_err (sequence_err (map (build_expr_node ctx) ks)) (\<lambda>ks'.
     bind_err (sequence_err (map (build_expr ctx) vs)) (\<lambda>vs'.
       Inr (DictLiteral (make_range ctx l c (c + 1)) ks' vs')))"
| "build_expr ctx (ast_Num l c n) = build_Num ctx l c n"
| "build_expr ctx (ast_Constant l c v) = build_Constant ctx l c v"
| "build_expr ctx (ast_Str l c s) = build_Str ctx l c s"
| "build_expr ctx (ast_JoinedStr l c vs) =
     bind_err (sequence_err (map (build_JoinedStr_value ctx) vs)) (\<lambda>parts.
       (let s = concat (map fst parts);
            fmt_args = concat (map snd parts);
            r = make_range ctx l c (c + 1)
        in Inr (Apply (Select (StringLiteral r s) (Ident r ''format'')) fmt_args [])))"
| "build_expr ctx (ast_FormattedValue l c v conversion format_spec) =
     Inl (UnsupportedNodeError_init ctx ''FormattedValue'' (Some (l, c)) [])"
| "build_expr ctx (ast_ListComp l c elt generators) =
     (let r = make_range ctx l c c
      in if length generators > 1 then
           Inl (NotSupportedError (Some r) ''multiple comprehension generators not supported yet'')
         else
           (case generators of
              [] \<Rightarrow> Inl IndexError
            | g # gs \<Rightarrow>
                (case g of ast_comprehension target iter ifs \<Rightarrow>
                   if length ifs \<noteq> 0 then
                     Inl (NotSupportedError (Some r) ''comprehension ifs not supported yet'')
                   else
                     bind_err (build_expr ctx elt) (\<lambda>elt_expr.
                     bind_err (build_expr ctx target) (\<lambda>target_expr.
                     bind_err (build_expr ctx iter) (\<lambda>iter_expr.
                       Inr (ListComp r elt_expr target_expr iter_expr)))))))"
| "build_expr ctx (ast_Starred l c v) =
     (let r = make_range ctx l c (c + 1)
      in bind_err (build_expr ctx v) (\<lambda>v'. Inr (Starred r v')))"
| "build_expr ctx (ast_OtherExpr l c k) =
     Inl (UnsupportedNodeError_init ctx (other_expr_name k) (Some (l, c)) [])"
| "build_expr_node ctx None = Inl (UnsupportedNodeError_init ctx ''NoneType'' None [])"
| "build_expr_node ctx (Some e) = build_expr ctx e"
| "build_keyword ctx (ast_keyword kw_arg kw_value) =
     bind_err (build_expr ctx kw_value) (\<lambda>kw_expr.
       case kw_arg of
         None \<Rightarrow>
           Inl (NotSupportedError (Some (range_of kw_expr))
                  ''keyword-arg expansion is not supported'')
       | Some name \<Rightarrow>
           if name = [] then
             Inl (NotSupportedError (Some (range_of kw_expr))
                    ''keyword-arg expansion is not supported'')
           else Inr (Attribute (Ident (range_of kw_expr) name) kw_expr))"
| "build_SliceExpr ctx base slice_expr =
     (case slice_expr of
        ast_Slice lower upper step \<Rightarrow>
          bind_err (case lower of None \<Rightarrow> Inr None
                    | Some e \<Rightarrow> bind_err (build_expr ctx e) (\<lambda>x. Inr (Some x))) (\<lambda>lower'.
          bind_err (case upper of None \<Rightarrow> Inr None
                    | Some e \<Rightarrow> bind_err (build_expr ctx e) (\<lambda>x. Inr (Some x))) (\<lambda>upper'.
          bind_err (case step of None \<Rightarrow> Inr None
                    | Some e \<Rightarrow> bind_err (build_expr ctx e) (\<lambda>x. Inr (Some x))) (\<lambda>step'.
            Inr (SliceExpr (range_of base) lower' upper' step'))))
      | _ \<Rightarrow> Inl AttributeError)"
| "build_Index ctx base index_expr =
     (case index_expr of
        ast_Index iv \<Rightarrow>
          if is_Tuple iv \<or> is_List iv then
            Inl (NotSupportedError (Some (range_of base))
                   (''slicing multiple dimensions with '' @ ''sequences not supported yet''))
          else build_expr ctx iv
      | _ \<Rightarrow> Inl AttributeError)"
| "build_ExtSlice_dim ctx base dim =
     (case dim of
        ast_Index iv \<Rightarrow> build_Index ctx base dim
      | ast_Slice lower upper step \<Rightarrow> build_SliceExpr ctx base dim
      | ast_EllipsisSlice \<Rightarrow> Inr (Dots (range_of base))
      | ast_ExtSlice dims \<Rightarrow>
          Inl (NotSupportedError (Some (range_of base))
                 (''slicing multiple dimensions with '' @ ''<class '' @ [CHR 0x27]
                  @ ''_ast.ExtSlice'' @ [CHR 0x27] @ ''>'' @ '' not supported'')))"
| "build_ExtSlice ctx base extslice =
     (case extslice of
        ast_ExtSlice dims \<Rightarrow> sequence_err (map (build_ExtSlice_dim ctx base) dims)
      | _ \<Rightarrow> Inl AttributeError)"
| "build_JoinedStr_value ctx e =
     (let r = make_range ctx (lineno e) (col_offset e) (col_offset e + 1)
      in case e of
           ast_FormattedValue l c v conversion format_spec \<Rightarrow>
             if conversion \<noteq> - 1 then
               Inl (NotSupportedError (Some r)
                      (''Don'' @ [CHR 0x27] @ ''t support conversion in JoinedStr''))
             else if format_spec \<noteq> None then
               Inl (NotSupportedError (Some r)
                      (''Don'' @ [CHR 0x27] @ ''t support formatting in JoinedStr''))
             else bind_err (build_expr ctx v) (\<lambda>a. Inr (''{}'', [a]))
         | ast_Str l c s \<Rightarrow> Inr (s, [])
         | ast_Constant l c (CStr s) \<Rightarrow> Inr (s, [])
         | _ \<Rightarrow> Inl (NotSupportedError (Some r) ''Unsupported value in JoinedStr''))"
  by pat_completeness auto

text \<open>
  Every call descends into the syntax tree; \<^verbatim>\<open>build_ExtSlice_dim\<close> hands its own node
  on to \<^verbatim>\<open>build_Index\<close> or \<^verbatim>\<open>build_SliceExpr\<close>, so it is counted one higher.
\<close>

termination
  by (relation "measure (case_sum
       (case_sum (case_sum (\<lambda>(ctx, e). 2 * size e) (\<lambda>(ctx, eo). 2 * size_option size eo))
                 (case_sum (\<lambda>(ctx, k). 2 * size k) (\<lambda>(ctx, b, s). 2 * size s)))
       (case_sum (case_sum (\<lambda>(ctx, b, s). 2 * size s) (\<lambda>(ctx, b, s). 2 * size s + 1))
                 (case_sum (\<lambda>(ctx, b, s). 2 * size s) (\<lambda>(ctx, e). 2 * size e))))")
     (auto simp: termination_simp)


section \<open>\<^verbatim>\<open>WithItemBuilder\<close> and \<^verbatim>\<open>StmtBuilder\<close>\<close>

fun other_stmt_name :: "other_stmt \<Rightarrow> string" where
  "other_stmt_name ast_FunctionDef = ''FunctionDef''"
| "other_stmt_name ast_AsyncFunctionDef = ''AsyncFunctionDef''"
| "other_stmt_name ast_ClassDef = ''ClassDef''"
| "other_stmt_name ast_AsyncFor = ''AsyncFor''"
| "other_stmt_name ast_AsyncWith = ''AsyncWith''"
| "other_stmt_name ast_Try = ''Try''"
| "other_stmt_name ast_Import = ''Import''"
| "other_stmt_name ast_ImportFrom = ''ImportFrom''"
| "other_stmt_name ast_Global = ''Global''"
| "other_stmt_name ast_Nonlocal = ''Nonlocal''"

text \<open>\<^verbatim>\<open>build_withitem\<close>; \<^verbatim>\<open>pretty_node_names[ast.With]\<close> raises \<^verbatim>\<open>KeyError\<close> on a missing key.\<close>

definition build_withitem :: "source_context \<Rightarrow> withitem \<Rightarrow> error + with_item" where
  "build_withitem ctx item =
     (case item of ast_withitem context_expr optional_vars \<Rightarrow>
        (let line = lineno context_expr;
             start = col_offset context_expr
         in case map_of pretty_node_names ''With'' of
              None \<Rightarrow> Inl KeyError
            | Some pretty \<Rightarrow>
                (let end = start + int (length pretty);
                     r = make_range ctx line start end
                 in bind_err (build_expr ctx context_expr) (\<lambda>context_expr'.
                    bind_err (case optional_vars of
                                None \<Rightarrow> Inr None
                              | Some op_vars \<Rightarrow>
                                  bind_err (build_expr ctx op_vars) (\<lambda>x. Inr (Some x))) (\<lambda>op_vars'.
                      Inr (WithItem r context_expr' op_vars'))))))"

definition build_withitems :: "source_context \<Rightarrow> withitem list \<Rightarrow> error + with_item list" where
  "build_withitems ctx items = sequence_err (map (build_withitem ctx) items)"

text \<open>\<^verbatim>\<open>list(filter(None, stmts))\<close>: the entries that are not \<^verbatim>\<open>None\<close>, in order.\<close>

fun filter_None :: "'a option list \<Rightarrow> 'a list" where
  "filter_None [] = []"
| "filter_None (None # xs) = filter_None xs"
| "filter_None (Some x # xs) = x # filter_None xs"

text \<open>
  \<^verbatim>\<open>build_stmt = StmtBuilder()\<close>, one equation for each handler; the result is \<^verbatim>\<open>None\<close>
  where the handler returns \<^verbatim>\<open>None\<close>. \<^verbatim>\<open>build_stmts\<close> translates each statement and
  drops the \<^verbatim>\<open>None\<close> results.
\<close>

function (sequential) build_stmt :: "source_context \<Rightarrow> stmt \<Rightarrow> error + stmt_tree option"
  and build_stmts :: "source_context \<Rightarrow> stmt list \<Rightarrow> error + stmt_tree list"
where
  "build_stmt ctx (ast_Expr l c v) =
     (if class_name v = ''Str'' then Inr None
      else bind_err (build_expr ctx v) (\<lambda>v'. Inr (Some (ExprStmt v'))))"
| "build_stmt ctx (ast_Assign l c targets v) =
     bind_err (build_expr ctx v) (\<lambda>rhs.
     bind_err (sequence_err (map (build_expr ctx) targets)) (\<lambda>lhs.
       Inr (Some (Assign lhs rhs None))))"
| "build_stmt ctx (ast_AnnAssign l c target annotation v) =
     (case v of
        None \<Rightarrow>
          Inl (UnsupportedNodeError_init ctx ''AnnAssign'' (Some (l, c))
                 ''without assigned value'')
      | Some v' \<Rightarrow>
          bind_err (build_expr ctx v') (\<lambda>rhs.
          bind_err (build_expr ctx target) (\<lambda>lhs.
          bind_err (build_expr ctx annotation) (\<lambda>the_type.
            Inr (Some (Assign [lhs] rhs (Some the_type)))))))"
| "build_stmt ctx (ast_Delete l c targets) =
     (if length targets > 1 then
        (let source_range = make_range ctx l c (c + int (length ''del''))
         in Inl (NotSupportedError (Some source_range)
                   ''del with more than one operand is not supported''))
      else
        (case targets of
           [] \<Rightarrow> Inl IndexError
         | t # ts \<Rightarrow> bind_err (build_expr ctx t) (\<lambda>t'. Inr (Some (Delete t')))))"
| "build_stmt ctx (ast_Return l c v) =
     (let r = make_range ctx l c (c + int (length ''return''))
      in bind_err (case v of
                     None \<Rightarrow> Inr None
                   | Some v' \<Rightarrow> bind_err (build_expr ctx v') (\<lambda>x. Inr (Some x))) (\<lambda>v''.
           Inr (Some (Return r v''))))"
| "build_stmt ctx (ast_Raise l c exc) =
     (let r = make_range ctx l c (c + int (length ''raise''))
      in bind_err (build_expr_node ctx exc) (\<lambda>e. Inr (Some (Raise r e))))"
| "build_stmt ctx (ast_Assert l c test msg) =
     (let r = make_range ctx l c (c + int (length ''assert''))
      in bind_err (build_expr ctx test) (\<lambda>test'.
         bind_err (case msg of
                     None \<Rightarrow> Inr None
                   | Some m \<Rightarrow> bind_err (build_expr ctx m) (\<lambda>x. Inr (Some x))) (\<lambda>msg'.
           Inr (Some (Assert r test' msg')))))"
| "build_stmt ctx (ast_AugAssign l c target op v) =
     bind_err (build_expr ctx target) (\<lambda>lhs.
     bind_err (build_expr ctx v) (\<lambda>rhs.
       case augassign_map op of
         Some op_token \<Rightarrow> Inr (Some (AugAssign lhs op_token rhs))
       | None \<Rightarrow>
           bind_err (find_before ctx (range_start (range_of rhs)) ''='' (- 1, 0)) (\<lambda>r.
             Inl (NotSupportedError (Some r)
                    (''unsupported kind of augumented assignment: '' @ operator_name op)))))"
| "build_stmt ctx (ast_While l c test body orelse) =
     (if orelse \<noteq> [] then
        Inl (NotSupportedError None
               (''else branches of while loops aren'' @ [CHR 0x27] @ ''t supported''))
      else
        (let r = make_range ctx l c (c + int (length ''while''))
         in bind_err (build_expr ctx test) (\<lambda>test'.
            bind_err (build_stmts ctx body) (\<lambda>body'.
              Inr (Some (While r test' body'))))))"
| "build_stmt ctx (ast_For l c target iter body) =
     (let r = make_range ctx l c (c + int (length ''for''))
      in bind_err (build_expr ctx target) (\<lambda>target'.
         bind_err (build_expr ctx iter) (\<lambda>iter'.
         bind_err (build_stmts ctx body) (\<lambda>body'.
           Inr (Some (For r [target'] [iter'] body'))))))"
| "build_stmt ctx (ast_If l c test body orelse) =
     (let r = make_range ctx l c (c + int (length ''if''))
      in bind_err (build_expr ctx test) (\<lambda>test'.
         bind_err (build_stmts ctx body) (\<lambda>body'.
         bind_err (build_stmts ctx orelse) (\<lambda>orelse'.
           Inr (Some (If_stmt r test' body' orelse'))))))"
| "build_stmt ctx (ast_Print l c dest vs) =
     (let r = make_range ctx l c (c + int (length ''print''))
      in if dest \<noteq> None then
           Inl (NotSupportedError (Some r)
                  (''print statements with non-default destinations aren'' @ [CHR 0x27]
                   @ ''t supported''))
         else
           bind_err (sequence_err (map (build_expr ctx) vs)) (\<lambda>print_args.
             Inr (Some (ExprStmt (Apply (Var (Ident r ''print'')) print_args [])))))"
| "build_stmt ctx (ast_Pass l c) =
     (let r = make_range ctx l c (c + int (length ''pass''))
      in Inr (Some (Pass r)))"
| "build_stmt ctx (ast_Break l c) =
     (let r = make_range ctx l c (c + int (length ''break''))
      in Inr (Some (Break r)))"
| "build_stmt ctx (ast_Continue l c) =
     (let r = make_range ctx l c (c + int (length ''continue''))
      in Inr (Some (Continue r)))"
| "build_stmt ctx (ast_With l c items body) =
     (let r = make_range ctx l c (c + int (length ''with''))
      in bind_err (build_withitems ctx items) (\<lambda>items'.
         bind_err (build_stmts ctx body) (\<lambda>body'.
           Inr (Some (With r items' body')))))"
| "build_stmt ctx (ast_OtherStmt l c k) =
     Inl (UnsupportedNodeError_init ctx (other_stmt_name k) (Some (l, c)) [])"
| "build_stmts ctx stmts =
     bind_err (sequence_err (map (build_stmt ctx) stmts)) (\<lambda>stmts'.
       Inr (filter_None stmts'))"
  by pat_completeness auto
termination
  by (relation "measure (case_sum (\<lambda>(ctx, s). 2 * size s)
                                  (\<lambda>(ctx, ss). 2 * size_list size ss + 1))")
     (auto simp: termination_simp)

section \<open>Parameter lists\<close>

definition vararg_kwarg_err :: string where
  "vararg_kwarg_err = ''Compiled functions can'' @ [CHR 0x27]
     @ ''t take variable number of arguments ''
     @ ''or use keyword-only arguments with defaults''"

definition build_param ::
  "source_context \<Rightarrow> arg \<Rightarrow> string option \<Rightarrow> bool \<Rightarrow> error + param" where
  "build_param ctx py_arg self_name kwarg_only =
     (case py_arg of ast_arg l c name annotation \<Rightarrow>
        (let r = make_range ctx l c (c + int (length name))
         in bind_err
              (case annotation of
                 Some a \<Rightarrow> build_expr ctx a
               | None \<Rightarrow>
                   (case self_name of
                      Some sn \<Rightarrow> if name = ''self'' then Inr (Var (Ident r sn))
                                 else Inr (EmptyTypeAnnotation r)
                    | None \<Rightarrow> Inr (EmptyTypeAnnotation r)))
              (\<lambda>annotation_expr. Inr (Param annotation_expr (Ident r name) kwarg_only))))"

text \<open>The first entry of \<^verbatim>\<open>kw_defaults\<close> that is not \<^verbatim>\<open>None\<close>, if there is one.\<close>

fun first_not_None :: "'a option list \<Rightarrow> 'a option" where
  "first_not_None [] = None"
| "first_not_None (None # xs) = first_not_None xs"
| "first_not_None (Some x # xs) = Some x"

definition variadic_range :: "source_context \<Rightarrow> arg \<Rightarrow> source_range" where
  "variadic_range ctx e =
     (case e of ast_arg l c name annotation \<Rightarrow>
        make_range ctx l (c - 1) (c + int (length name)))"

definition build_param_list ::
  "source_context \<Rightarrow> arguments \<Rightarrow> string option \<Rightarrow> error + param list" where
  "build_param_list ctx py_args self_name =
     (case kwarg py_args of
        Some e \<Rightarrow> Inl (NotSupportedError (Some (variadic_range ctx e)) vararg_kwarg_err)
      | None \<Rightarrow>
     (case vararg py_args of
        Some e \<Rightarrow> Inl (NotSupportedError (Some (variadic_range ctx e)) vararg_kwarg_err)
      | None \<Rightarrow>
     (case first_not_None (kw_defaults py_args) of
        Some a \<Rightarrow>
          bind_err (build_expr ctx a) (\<lambda>a'.
            Inl (NotSupportedError (Some (range_of a')) vararg_kwarg_err))
      | None \<Rightarrow>
          bind_err (sequence_err (map (\<lambda>a. build_param ctx a self_name False)
                                      (args py_args))) (\<lambda>result.
          bind_err (sequence_err (map (\<lambda>a. build_param ctx a self_name True)
                                      (kwonlyargs py_args))) (\<lambda>result'.
            Inr (result @ result'))))))"



section \<open>Notions for stating the properties\<close>

text \<open>
  The tree that combines a first operand and the operands after it with one binary
  operator, associated to the left, described from the last operand inwards: the last
  operand is the right child of the outermost node, and what is left of it is the nest
  of the operands before it. \<^verbatim>\<open>nest_rev\<close> takes the later operands in reverse order.
\<close>

fun nest_rev :: "string \<Rightarrow> tree list \<Rightarrow> tree \<Rightarrow> tree" where
  "nest_rev tok [] first = first"
| "nest_rev tok (x # before) first = BinOp tok (nest_rev tok before first) x"

definition left_nested :: "string \<Rightarrow> tree \<Rightarrow> tree list \<Rightarrow> tree" where
  "left_nested tok first rest = nest_rev tok (rev rest) first"

text \<open>
  Taking a tree apart again: \<^verbatim>\<open>unnest tok k t\<close> removes \<^verbatim>\<open>k\<close> nodes of operator
  \<^verbatim>\<open>tok\<close> along the left spine of \<^verbatim>\<open>t\<close> and lists the \<^verbatim>\<open>k + 1\<close> operands from left
  to right; \<^verbatim>\<open>None\<close> if the spine has fewer such nodes.
\<close>

fun unnest :: "string \<Rightarrow> nat \<Rightarrow> tree \<Rightarrow> tree list option" where
  "unnest tok 0 t = Some [t]"
| "unnest tok (Suc k) (BinOp kind lhs rhs) =
     (if kind = tok then map_option (\<lambda>xs. xs @ [rhs]) (unnest tok k lhs) else None)"
| "unnest tok (Suc k) t = None"

text \<open>
  A unit with the given text, with true division (as \<^verbatim>\<open>get_jit_def\<close> builds the context)
  and without it (as \<^verbatim>\<open>get_jit_class_def\<close> does).
\<close>

definition unit_of :: "string \<Rightarrow> source_context" where
  "unit_of text = \<lparr>source = text, filename = ''f.py'', file_lineno = 1,
                    leading_whitespace_len = 0, uses_true_division = True\<rparr>"

definition unit_floor :: "string \<Rightarrow> source_context" where
  "unit_floor text = \<lparr>source = text, filename = ''f.py'', file_lineno = 1,
                       leading_whitespace_len = 0, uses_true_division = False\<rparr>"

text \<open>The token of each boolean operator and of each comparison operator.\<close>

fun boolop_token :: "boolop \<Rightarrow> string" where
  "boolop_token ast_And = ''and''"
| "boolop_token ast_Or = ''or''"

fun cmpop_token :: "cmpop \<Rightarrow> string" where
  "cmpop_token ast_Eq = ''==''"
| "cmpop_token ast_NotEq = ''!=''"
| "cmpop_token ast_LtE = ''<=''"
| "cmpop_token ast_Lt = ''<''"
| "cmpop_token ast_GtE = ''>=''"
| "cmpop_token ast_Gt = ''>''"
| "cmpop_token ast_Is = ''is''"
| "cmpop_token ast_IsNot = ''is not''"
| "cmpop_token ast_In = ''in''"
| "cmpop_token ast_NotIn = ''not in''"

text \<open>
  The comparison of one adjacent pair of operands, in the words of the spec: a binary
  node under the token of the operator, but for \<^verbatim>\<open>not in\<close> the negation of an \<^verbatim>\<open>in\<close>
  comparison (a \<^verbatim>\<open>not\<close> node, whose range is the gap between the two operands).
  \<^verbatim>\<open>pairwise_comparisons\<close> lists the comparisons of a chain from left to right.
\<close>

definition pairwise_comparison :: "source_context \<Rightarrow> tree \<Rightarrow> cmpop \<Rightarrow> tree \<Rightarrow> tree" where
  "pairwise_comparison ctx lhs op rhs =
     (if op = ast_NotIn then
        UnaryOp (SourceRange (range_end (range_of lhs)) (range_start (range_of rhs))) ''not''
          (BinOp ''in'' lhs rhs)
      else BinOp (cmpop_token op) lhs rhs)"

fun pairwise_comparisons :: "source_context \<Rightarrow> tree list \<Rightarrow> cmpop list \<Rightarrow> tree list" where
  "pairwise_comparisons ctx (a # b # rest) (op # ops) =
     pairwise_comparison ctx a op b # pairwise_comparisons ctx (b # rest) ops"
| "pairwise_comparisons ctx operands ops = []"

text \<open>The unit with the text \<^verbatim>\<open>'doc'; pass\<close>.\<close>

definition docstring_unit :: source_context where
  "docstring_unit = unit_of ([CHR 0x27] @ ''doc'' @ [CHR 0x27] @ ''; pass'')"

text \<open>The name of a parameter of the syntax tree, and the name and the flag of a built one.\<close>

fun arg_name :: "arg \<Rightarrow> string" where
  "arg_name (ast_arg l c name annotation) = name"

text \<open>The span of the name of a parameter, as \<^verbatim>\<open>build_param\<close> computes it.\<close>

fun arg_name_span :: "source_context \<Rightarrow> arg \<Rightarrow> source_range" where
  "arg_name_span ctx (ast_arg l c name annotation) = make_range ctx l c (c + int (length name))"

fun param_name :: "param \<Rightarrow> string" where
  "param_name (Param annotation (Ident r name) kwarg_only) = name"

fun param_kwarg_only :: "param \<Rightarrow> bool" where
  "param_kwarg_only (Param annotation name kwarg_only) = kwarg_only"

text \<open>A range covers another when it starts no later and ends no earlier.\<close>

definition covers :: "source_range \<Rightarrow> source_range \<Rightarrow> bool" where
  "covers r s = (range_start r \<le> range_start s \<and> range_end s \<le> range_end r)"

text \<open>The offset in the text that the context gives to a position (line, column).\<close>

definition node_offset :: "source_context \<Rightarrow> int \<Rightarrow> int \<Rightarrow> int" where
  "node_offset ctx line col = range_start (make_range ctx line col col)"

text \<open>
  The expression kinds whose handler takes the range of the view it builds from the
  position of the node itself and a width: the literal \<^verbatim>\<open>...\<close>, a name (with an
  identifier that is not empty), a boolean or \<^verbatim>\<open>None\<close> constant, a unary operation, a
  list, tuple or dictionary display, a numeric literal and a constant (whose text is not
  empty), a string literal and a starred expression.
\<close>

fun own_range_kind :: "expr \<Rightarrow> bool" where
  "own_range_kind (ast_Ellipsis l c) = True"
| "own_range_kind (ast_Name l c name) = (name \<noteq> [])"
| "own_range_kind (ast_NameConstant l c v) = True"
| "own_range_kind (ast_UnaryOp l c op operand) = True"
| "own_range_kind (ast_List l c elts) = True"
| "own_range_kind (ast_Tuple l c elts) = True"
| "own_range_kind (ast_Dict l c ks vs) = True"
| "own_range_kind (ast_Num l c n) = (py_str n \<noteq> [])"
| "own_range_kind (ast_Constant l c (CStr s)) = True"
| "own_range_kind (ast_Constant l c v) = (py_str v \<noteq> [])"
| "own_range_kind (ast_Str l c s) = True"
| "own_range_kind (ast_Starred l c v) = True"
| "own_range_kind e = False"

text \<open>
  The range a statement view is built with; \<^verbatim>\<open>None\<close> for a view that \<^verbatim>\<open>frontend.py\<close>
  builds from sub-views only.
\<close>

fun stmt_range :: "stmt_tree \<Rightarrow> source_range option" where
  "stmt_range (Return r v) = Some r"
| "stmt_range (Raise r e) = Some r"
| "stmt_range (Assert r test msg) = Some r"
| "stmt_range (While r test body) = Some r"
| "stmt_range (For r targets iters body) = Some r"
| "stmt_range (If_stmt r test body orelse) = Some r"
| "stmt_range (Pass r) = Some r"
| "stmt_range (Break r) = Some r"
| "stmt_range (Continue r) = Some r"
| "stmt_range (With r items body) = Some r"
| "stmt_range (ExprStmt e) = None"
| "stmt_range (Assign lhs rhs ty) = None"
| "stmt_range (Delete e) = None"
| "stmt_range (AugAssign lhs tok rhs) = None"

text \<open>\<^verbatim>\<open>stmt.lineno\<close> and \<^verbatim>\<open>stmt.col_offset\<close>.\<close>

definition stmt_lineno :: "stmt \<Rightarrow> int" where
  "stmt_lineno s = (case s of
     ast_Expr l c v \<Rightarrow> l | ast_Assign l c ts v \<Rightarrow> l | ast_AnnAssign l c t a v \<Rightarrow> l
   | ast_Delete l c ts \<Rightarrow> l | ast_Return l c v \<Rightarrow> l | ast_Raise l c e \<Rightarrow> l
   | ast_Assert l c t m \<Rightarrow> l | ast_AugAssign l c t op v \<Rightarrow> l | ast_While l c t b oe \<Rightarrow> l
   | ast_For l c t i b \<Rightarrow> l | ast_If l c t b oe \<Rightarrow> l | ast_Print l c d vs \<Rightarrow> l
   | ast_Pass l c \<Rightarrow> l | ast_Break l c \<Rightarrow> l | ast_Continue l c \<Rightarrow> l
   | ast_With l c is b \<Rightarrow> l | ast_OtherStmt l c k \<Rightarrow> l)"

definition stmt_col_offset :: "stmt \<Rightarrow> int" where
  "stmt_col_offset s = (case s of
     ast_Expr l c v \<Rightarrow> c | ast_Assign l c ts v \<Rightarrow> c | ast_AnnAssign l c t a v \<Rightarrow> c
   | ast_Delete l c ts \<Rightarrow> c | ast_Return l c v \<Rightarrow> c | ast_Raise l c e \<Rightarrow> c
   | ast_Assert l c t m \<Rightarrow> c | ast_AugAssign l c t op v \<Rightarrow> c | ast_While l c t b oe \<Rightarrow> c
   | ast_For l c t i b \<Rightarrow> c | ast_If l c t b oe \<Rightarrow> c | ast_Print l c d vs \<Rightarrow> c
   | ast_Pass l c \<Rightarrow> c | ast_Break l c \<Rightarrow> c | ast_Continue l c \<Rightarrow> c
   | ast_With l c is b \<Rightarrow> c | ast_OtherStmt l c k \<Rightarrow> c)"

section \<open>Facts about the helpers and the handlers\<close>

lemma sequence_err_length: "sequence_err ms = Inr xs \<Longrightarrow> length xs = length ms"
proof (induction ms arbitrary: xs)
  case Nil
  then show ?case by simp
next
  case (Cons m ms)
  then show ?case
    by (cases m; cases "sequence_err ms") auto
qed

lemma sequence_err_Cons_Inr:
  "sequence_err (m # ms) = Inr ys \<longleftrightarrow>
     (\<exists>x xs. m = Inr x \<and> sequence_err ms = Inr xs \<and> ys = x # xs)"
  by (cases m; cases "sequence_err ms") auto

lemma sequence_err_append_Inr:
  "sequence_err ms = Inr xs \<Longrightarrow> sequence_err (ms @ ms') = bind_err (sequence_err ms') (\<lambda>ys. Inr (xs @ ys))"
proof (induction ms arbitrary: xs)
  case Nil
  then show ?case by (cases "sequence_err ms'") auto
next
  case (Cons m ms)
  from Cons.prems [unfolded sequence_err_Cons_Inr]
  obtain x xs' where m: "m = Inr x" and ms: "sequence_err ms = Inr xs'" and xs: "xs = x # xs'"
    by blast
  show ?case
    using Cons.IH [OF ms] by (cases "sequence_err ms'") (simp_all add: m xs)
qed

lemma sequence_err_Inl_first:
  "sequence_err ms = Inr xs \<Longrightarrow> sequence_err (ms @ Inl e # ms') = Inl e"
  by (simp add: sequence_err_append_Inr)

lemma cmpop_map_total: "\<exists>tok. cmpop_map op = Some tok"
  by (cases op) simp_all

lemma boolop_map_total: "\<exists>tok. boolop_map op = Some tok"
  by (cases op) simp_all

lemma binop_map_total: "\<exists>tok. binop_map op = Some tok"
  by (cases op) simp_all

lemma left_nested_Nil [simp]: "left_nested tok first [] = first"
  by (simp add: left_nested_def)

lemma left_nested_snoc [simp]:
  "left_nested tok first (rest @ [x]) = BinOp tok (left_nested tok first rest) x"
  by (simp add: left_nested_def)

lemma foldl_BinOp_left_nested:
  "foldl (\<lambda>lhs rhs. BinOp tok lhs rhs) first rest = left_nested tok first rest"
  by (induction rest rule: rev_induct) simp_all

lemma unnest_left_nested:
  "unnest tok (length rest) (left_nested tok first rest) = Some (first # rest)"
  by (induction rest rule: rev_induct) simp_all

lemma make_range_first_line [simp]:
  "make_range ctx 1 start_col end_col =
     SourceRange (leading_whitespace_len ctx + start_col) (leading_whitespace_len ctx + end_col)"
  by (simp add: make_range_def Let_def)

lemma build_Name_letter [simp]:
  "build_Name ctx l c [ch] = Inr (Var (Ident (make_range ctx l c (c + 1)) [ch]))"
  by (simp add: build_Name_def startswith_def reserved_prefix_def)

lemma boolop_map_token: "boolop_map op = Some (boolop_token op)"
  by (cases op) simp_all

lemma cmpop_map_token: "cmpop_map op = Some (cmpop_token op)"
  by (cases op) simp_all

lemma left_nested_Cons:
  "left_nested tok first (x # rest) = left_nested tok (BinOp tok first x) rest"
  by (simp add: foldl_BinOp_left_nested [symmetric])

lemma build_Compare_loop_Some:
  "build_Compare_loop ctx triples (Some acc) =
     Inr (Some (left_nested ''and'' acc
                  (map (\<lambda>(lhs, op, rhs). pairwise_comparison ctx lhs op rhs) triples)))"
proof (induction triples arbitrary: acc)
  case Nil
  show ?case by simp
next
  case (Cons t triples)
  obtain lhs op rhs where t: "t = (lhs, op, rhs)"
    by (cases t) auto
  show ?case
    by (simp add: t cmpop_map_token Cons.IH left_nested_Cons pairwise_comparison_def
          make_raw_range_def Let_def)
qed

lemma build_Compare_loop_None:
  "build_Compare_loop ctx ((lhs, op, rhs) # triples) None =
     Inr (Some (left_nested ''and'' (pairwise_comparison ctx lhs op rhs)
                  (map (\<lambda>(lhs, op, rhs). pairwise_comparison ctx lhs op rhs) triples)))"
  by (simp add: cmpop_map_token build_Compare_loop_Some pairwise_comparison_def
        make_raw_range_def Let_def)

lemma zip_pairwise_comparisons:
  "map (\<lambda>(lhs, op, rhs). pairwise_comparison ctx lhs op rhs)
       (zip operands (zip ops (drop 1 operands)))
     = pairwise_comparisons ctx operands ops"
  by (induction ctx operands ops rule: pairwise_comparisons.induct) simp_all

lemma length_pairwise_comparisons:
  "length operands = Suc (length ops) \<Longrightarrow>
     length (pairwise_comparisons ctx operands ops) = length ops"
  by (induction ctx operands ops rule: pairwise_comparisons.induct) auto

lemma build_UnaryOp_supported:
  "build_expr ctx operand = Inr sub_expr \<Longrightarrow> unop_map op = Some tok \<Longrightarrow>
     build_expr ctx (ast_UnaryOp l c op operand)
       = Inr (UnaryOp (make_range ctx l c (c + int (length tok))) tok sub_expr)"
  by simp

lemma build_UnaryOp_UAdd:
  "build_expr ctx operand = Inr sub_expr \<Longrightarrow>
     build_expr ctx (ast_UnaryOp l c ast_UAdd operand) = Inl TypeError"
  by simp

lemma build_ExtSlice_plain_indices:
  "\<forall>e\<in>set elts. \<not> is_Tuple e \<and> \<not> is_List e \<Longrightarrow>
     map (build_ExtSlice_dim ctx base) (map ast_Index elts) = map (build_expr ctx) elts"
  by (induction elts) simp_all

lemma build_Expr_Constant_kept:
  "build_stmt ctx (ast_Expr l c (ast_Constant sl sc (CStr s)))
     = Inr (Some (ExprStmt (StringLiteral (make_range ctx sl sc (sc + 1)) s)))"
  by (simp add: class_name_def build_Constant_def build_Str_def)

lemma build_Expr_Str_dropped:
  "build_stmt ctx (ast_Expr l c (ast_Str sl sc s)) = Inr None"
  by (simp add: class_name_def)

lemma build_stmts_Cons:
  "build_stmts ctx (s # stmts) =
     bind_err (build_stmt ctx s) (\<lambda>r.
       bind_err (build_stmts ctx stmts) (\<lambda>rs.
         Inr (case r of None \<Rightarrow> rs | Some t \<Rightarrow> t # rs)))"
  by (cases "build_stmt ctx s"; cases "sequence_err (map (build_stmt ctx) stmts)")
     (auto split: option.splits)

lemma build_stmts_Str_dropped:
  "build_stmts ctx (ast_Expr l c (ast_Str sl sc s) # stmts) = build_stmts ctx stmts"
  by (cases "sequence_err (map (build_stmt ctx) stmts)") (simp_all add: class_name_def)

lemma filter_rev_upt_first:
  "filter P (rev [0 ..< n]) = i # rest \<Longrightarrow> i < n \<and> P i \<and> (\<forall>q. i < q \<and> q < n \<longrightarrow> \<not> P q)"
proof (induction n)
  case 0
  then show ?case by simp
next
  case (Suc n)
  show ?case
  proof (cases "P n")
    case True
    with Suc.prems show ?thesis by auto
  next
    case False
    with Suc.prems have "filter P (rev [0 ..< n]) = i # rest" by simp
    from Suc.IH [OF this] False show ?thesis
      by (auto simp: less_Suc_eq)
  qed
qed

lemma filter_rev_upt_nonempty:
  "i < n \<Longrightarrow> P i \<Longrightarrow> filter P (rev [0 ..< n]) \<noteq> []"
  by (auto simp: filter_empty_conv)

lemma take_1_drop: "i < length t \<Longrightarrow> (take (Suc 0) (drop i t) = [ch]) = (t ! i = ch)"
proof -
  assume "i < length t"
  then have "drop i t = t ! i # drop (Suc i) t"
    by (simp add: Cons_nth_drop_Suc)
  then show ?thesis
    by simp
qed

lemma rindex_char:
  "rindex t [ch] =
     (case filter (\<lambda>i. t ! i = ch) (rev [0 ..< length t]) of [] \<Rightarrow> None | i # rest \<Rightarrow> Some i)"
proof -
  have "filter (\<lambda>i. take (length [ch]) (drop i t) = [ch]) (rev [0 ..< length t])
          = filter (\<lambda>i. t ! i = ch) (rev [0 ..< length t])"
    by (rule filter_cong) (auto simp: take_1_drop)
  then show ?thesis
    by (simp add: rindex_def)
qed

text \<open>
  \<^verbatim>\<open>rindex\<close> for one character: the match is the last position of the text that holds
  the character, and there is a match as soon as the character occurs.
\<close>

lemma rindex_char_Some:
  "rindex t [ch] = Some p \<Longrightarrow>
     p < length t \<and> t ! p = ch \<and> (\<forall>q. p < q \<and> q < length t \<longrightarrow> t ! q \<noteq> ch)"
proof -
  assume "rindex t [ch] = Some p"
  then obtain rest where "filter (\<lambda>i. t ! i = ch) (rev [0 ..< length t]) = p # rest"
    by (auto simp: rindex_char split: list.splits)
  from filter_rev_upt_first [OF this] show ?thesis
    by simp
qed

lemma rindex_char_occurs:
  "ch \<in> set t \<Longrightarrow> \<exists>p. rindex t [ch] = Some p"
proof -
  assume "ch \<in> set t"
  then obtain i where "i < length t" and "t ! i = ch"
    by (auto simp: in_set_conv_nth)
  then have "filter (\<lambda>i. t ! i = ch) (rev [0 ..< length t]) \<noteq> []"
    by (rule filter_rev_upt_nonempty)
  then show ?thesis
    by (auto simp: rindex_char split: list.splits)
qed

lemma variadic_range_covers: "covers (variadic_range ctx a) (arg_name_span ctx a)"
  by (cases a) (simp add: covers_def variadic_range_def make_range_def Let_def)

lemma build_param_Inr:
  "build_param ctx a self_name k = Inr p \<Longrightarrow> param_name p = arg_name a \<and> param_kwarg_only p = k"
  by (cases a) (auto simp: build_param_def Let_def bind_err_def split: option.splits sum.splits if_splits)

lemma build_params_Inr:
  "sequence_err (map (\<lambda>a. build_param ctx a self_name k) as) = Inr ps \<Longrightarrow>
     map param_name ps = map arg_name as \<and> map param_kwarg_only ps = replicate (length as) k"
proof (induction as arbitrary: ps)
  case Nil
  then show ?case by simp
next
  case (Cons a as)
  from Cons.prems have "sequence_err (build_param ctx a self_name k
                          # map (\<lambda>a. build_param ctx a self_name k) as) = Inr ps"
    by simp
  then obtain p ps' where p: "build_param ctx a self_name k = Inr p"
    and ps': "sequence_err (map (\<lambda>a. build_param ctx a self_name k) as) = Inr ps'"
    and ps: "ps = p # ps'"
    unfolding sequence_err_Cons_Inr by blast
  from build_param_Inr [OF p] Cons.IH [OF ps'] show ?case
    by (simp add: ps)
qed

lemma first_not_None_replicate:
  "first_not_None (replicate n None @ Some d # rest) = Some d"
  by (induction n) simp_all

lemma first_not_None_all_None:
  "set xs \<subseteq> {None} \<Longrightarrow> first_not_None xs = None"
  by (induction xs rule: first_not_None.induct) simp_all

lemma bind_err_Inr_iff: "bind_err m f = Inr y \<longleftrightarrow> (\<exists>x. m = Inr x \<and> f x = Inr y)"
  by (cases m) simp_all

lemma make_range_start: "range_start (make_range ctx l c e) = node_offset ctx l c"
  by (simp add: make_range_def node_offset_def Let_def)

lemma make_range_nonempty:
  "0 < w \<Longrightarrow> range_start (make_range ctx l c (c + w)) < range_end (make_range ctx l c (c + w))"
  by (simp add: make_range_def Let_def)

lemma str_nat_nonempty: "str_nat n \<noteq> []"
  by (subst str_nat.simps) simp

lemma py_str_CInt_nonempty: "py_str (CInt i) \<noteq> []"
  by (simp add: str_int_def str_nat_nonempty)

text \<open>The view itself, for each kind that succeeds, is built over a range of positive width.\<close>

lemma own_range_Name:
  "build_Name ctx l c name = Inr t \<Longrightarrow> name \<noteq> [] \<Longrightarrow>
     range_of t = make_range ctx l c (c + int (length name))"
  by (auto simp: build_Name_def Let_def split: if_splits)

lemma own_range_NameConstant:
  "build_NameConstant ctx l c v = Inr t \<Longrightarrow>
     range_of t = make_range ctx l c (c + int (length (py_str v))) \<and> py_str v \<noteq> []"
  by (auto simp: build_NameConstant_def Let_def split: if_splits)

lemma own_range_Num:
  "build_Num ctx l c n = Inr t \<Longrightarrow> range_of t = make_range ctx l c (c + int (length (py_str n)))"
  by (auto simp: build_Num_def Let_def)

lemma own_range_UnaryOp:
  "build_expr ctx (ast_UnaryOp l c op operand) = Inr t \<Longrightarrow>
     \<exists>w. 0 < w \<and> range_of t = make_range ctx l c (c + w)"
  by (cases op) (auto simp: bind_err_Inr_iff intro: exI [of _ 1] exI [of _ 3])

lemma own_range_expr:
  "build_expr ctx e = Inr t \<Longrightarrow> own_range_kind e \<Longrightarrow>
     \<exists>w. 0 < w \<and> range_of t = make_range ctx (lineno e) (col_offset e) (col_offset e + w)"
proof (cases e)
  case (ast_Ellipsis l c)
  assume "build_expr ctx e = Inr t"
  with ast_Ellipsis show ?thesis
    by (auto simp: build_Ellipsis_def lineno_def col_offset_def intro!: exI [of _ 3])
next
  case (ast_Name l c name)
  assume "build_expr ctx e = Inr t" and "own_range_kind e"
  with ast_Name own_range_Name [of ctx l c name t] show ?thesis
    by (auto simp: lineno_def col_offset_def intro!: exI [of _ "int (length name)"])
next
  case (ast_NameConstant l c v)
  assume "build_expr ctx e = Inr t"
  with ast_NameConstant own_range_NameConstant [of ctx l c v t] show ?thesis
    by (auto simp: lineno_def col_offset_def intro!: exI [of _ "int (length (py_str v))"])
next
  case (ast_UnaryOp l c op operand)
  assume "build_expr ctx e = Inr t"
  with ast_UnaryOp own_range_UnaryOp [of ctx l c op operand t] show ?thesis
    by (simp add: lineno_def col_offset_def)
next
  case (ast_List l c elts)
  assume "build_expr ctx e = Inr t"
  with ast_List show ?thesis
    by (auto simp: bind_err_Inr_iff lineno_def col_offset_def intro!: exI [of _ 1])
next
  case (ast_Tuple l c elts)
  assume "build_expr ctx e = Inr t"
  with ast_Tuple show ?thesis
    by (auto simp: bind_err_Inr_iff lineno_def col_offset_def intro!: exI [of _ 1])
next
  case (ast_Dict l c ks vs)
  assume "build_expr ctx e = Inr t"
  with ast_Dict show ?thesis
    by (auto simp: bind_err_Inr_iff lineno_def col_offset_def intro!: exI [of _ 1])
next
  case (ast_Num l c n)
  assume "build_expr ctx e = Inr t" and "own_range_kind e"
  with ast_Num own_range_Num [of ctx l c n t] show ?thesis
    by (auto simp: lineno_def col_offset_def intro!: exI [of _ "int (length (py_str n))"])
next
  case (ast_Constant l c v)
  assume built: "build_expr ctx e = Inr t" and kind: "own_range_kind e"
  show ?thesis
  proof (cases v)
    case CNone
    with ast_Constant built own_range_NameConstant [of ctx l c v t] show ?thesis
      by (auto simp: build_Constant_def lineno_def col_offset_def
            intro!: exI [of _ "int (length (py_str v))"])
  next
    case (CBool b)
    with ast_Constant built own_range_NameConstant [of ctx l c v t] show ?thesis
      by (auto simp: build_Constant_def lineno_def col_offset_def
            intro!: exI [of _ "int (length (py_str v))"])
  next
    case (CInt i)
    with ast_Constant built kind own_range_Num [of ctx l c v t] show ?thesis
      by (auto simp: build_Constant_def lineno_def col_offset_def
            intro!: exI [of _ "int (length (py_str v))"])
  next
    case (CFloat f)
    with ast_Constant built kind own_range_Num [of ctx l c v t] show ?thesis
      by (auto simp: build_Constant_def lineno_def col_offset_def
            intro!: exI [of _ "int (length (py_str v))"])
  next
    case (CStr s)
    with ast_Constant built show ?thesis
      by (auto simp: build_Constant_def build_Str_def lineno_def col_offset_def
            intro!: exI [of _ 1])
  next
    case CEllipsis
    with ast_Constant built show ?thesis
      by (auto simp: build_Constant_def build_Ellipsis_def lineno_def col_offset_def
            intro!: exI [of _ 3])
  next
    case (COther s)
    with ast_Constant built show ?thesis
      by (simp add: build_Constant_def)
  qed
next
  case (ast_Str l c s)
  assume "build_expr ctx e = Inr t"
  with ast_Str show ?thesis
    by (auto simp: build_Str_def lineno_def col_offset_def intro!: exI [of _ 1])
next
  case (ast_Starred l c v)
  assume "build_expr ctx e = Inr t"
  with ast_Starred show ?thesis
    by (auto simp: bind_err_Inr_iff Let_def lineno_def col_offset_def intro!: exI [of _ 1])
qed simp_all

lemma own_range_stmt:
  "build_stmt ctx s = Inr (Some t) \<Longrightarrow> stmt_range t = Some r \<Longrightarrow>
     \<exists>w. 0 < w \<and> r = make_range ctx (stmt_lineno s) (stmt_col_offset s) (stmt_col_offset s + w)"
proof (cases s)
  case (ast_Return l c v)
  assume "build_stmt ctx s = Inr (Some t)" and "stmt_range t = Some r"
  with ast_Return show ?thesis
    by (auto simp: bind_err_Inr_iff Let_def stmt_lineno_def stmt_col_offset_def intro!: exI [of _ 6])
next
  case (ast_Raise l c exc)
  assume "build_stmt ctx s = Inr (Some t)" and "stmt_range t = Some r"
  with ast_Raise show ?thesis
    by (auto simp: bind_err_Inr_iff Let_def stmt_lineno_def stmt_col_offset_def intro!: exI [of _ 5])
next
  case (ast_Assert l c test msg)
  assume "build_stmt ctx s = Inr (Some t)" and "stmt_range t = Some r"
  with ast_Assert show ?thesis
    by (auto simp: bind_err_Inr_iff Let_def stmt_lineno_def stmt_col_offset_def intro!: exI [of _ 6])
next
  case (ast_While l c test body orelse)
  assume "build_stmt ctx s = Inr (Some t)" and "stmt_range t = Some r"
  with ast_While show ?thesis
    by (auto simp: bind_err_Inr_iff Let_def stmt_lineno_def stmt_col_offset_def
          simp del: build_stmts.simps split: if_splits intro!: exI [of _ 5])
next
  case (ast_For l c target iter body)
  assume "build_stmt ctx s = Inr (Some t)" and "stmt_range t = Some r"
  with ast_For show ?thesis
    by (auto simp: bind_err_Inr_iff Let_def stmt_lineno_def stmt_col_offset_def
          simp del: build_stmts.simps intro!: exI [of _ 3])
next
  case (ast_If l c test body orelse)
  assume "build_stmt ctx s = Inr (Some t)" and "stmt_range t = Some r"
  with ast_If show ?thesis
    by (auto simp: bind_err_Inr_iff Let_def stmt_lineno_def stmt_col_offset_def
          simp del: build_stmts.simps intro!: exI [of _ 2])
next
  case (ast_Pass l c)
  assume "build_stmt ctx s = Inr (Some t)" and "stmt_range t = Some r"
  with ast_Pass show ?thesis
    by (auto simp: Let_def stmt_lineno_def stmt_col_offset_def intro!: exI [of _ 4])
next
  case (ast_Break l c)
  assume "build_stmt ctx s = Inr (Some t)" and "stmt_range t = Some r"
  with ast_Break show ?thesis
    by (auto simp: Let_def stmt_lineno_def stmt_col_offset_def intro!: exI [of _ 5])
next
  case (ast_Continue l c)
  assume "build_stmt ctx s = Inr (Some t)" and "stmt_range t = Some r"
  with ast_Continue show ?thesis
    by (auto simp: Let_def stmt_lineno_def stmt_col_offset_def intro!: exI [of _ 8])
next
  case (ast_With l c items body)
  assume "build_stmt ctx s = Inr (Some t)" and "stmt_range t = Some r"
  with ast_With show ?thesis
    by (auto simp: bind_err_Inr_iff Let_def stmt_lineno_def stmt_col_offset_def
          simp del: build_stmts.simps intro!: exI [of _ 4])
next
  case (ast_Expr l c v)
  assume "build_stmt ctx s = Inr (Some t)" and "stmt_range t = Some r"
  with ast_Expr show ?thesis
    by (auto simp: bind_err_Inr_iff split: if_splits)
next
  case (ast_Assign l c targets v)
  assume "build_stmt ctx s = Inr (Some t)" and "stmt_range t = Some r"
  with ast_Assign show ?thesis
    by (auto simp: bind_err_Inr_iff)
next
  case (ast_AnnAssign l c target annotation v)
  assume "build_stmt ctx s = Inr (Some t)" and "stmt_range t = Some r"
  with ast_AnnAssign show ?thesis
    by (auto simp: bind_err_Inr_iff split: option.splits)
next
  case (ast_Delete l c targets)
  assume "build_stmt ctx s = Inr (Some t)" and "stmt_range t = Some r"
  with ast_Delete show ?thesis
    by (auto simp: bind_err_Inr_iff Let_def split: if_splits list.splits)
next
  case (ast_AugAssign l c target op v)
  assume "build_stmt ctx s = Inr (Some t)" and "stmt_range t = Some r"
  with ast_AugAssign show ?thesis
    by (auto simp: bind_err_Inr_iff split: option.splits)
next
  case (ast_Print l c dest vs)
  assume "build_stmt ctx s = Inr (Some t)" and "stmt_range t = Some r"
  with ast_Print show ?thesis
    by (auto simp: bind_err_Inr_iff Let_def split: if_splits)
next
  case (ast_OtherStmt l c k)
  assume "build_stmt ctx s = Inr (Some t)"
  with ast_OtherStmt show ?thesis
    by (simp add: UnsupportedNodeError_init_def Let_def)
qed

section \<open>Properties of comparison chains\<close>

text \<open>
  C1. A comparison chain with as many operators as comparators, at least one, whose
  operands all translate (every operator of the grammar is in \<^verbatim>\<open>cmpop_map\<close>) becomes
  the conjunction, nested to the left under \<^verbatim>\<open>and\<close>, of the comparisons of its adjacent
  pairs, one for each operator, where \<^verbatim>\<open>not in\<close> is the negation of an \<^verbatim>\<open>in\<close>
  comparison.
\<close>

theorem C1_Compare_desugars:
  "sequence_err (map (build_expr ctx) (left # comparators)) = Inr operands \<and>
   length ops = length comparators \<and> ops \<noteq> [] \<longrightarrow>
     (\<exists>cmp cmps. pairwise_comparisons ctx operands ops = cmp # cmps \<and>
        length (cmp # cmps) = length ops \<and>
        build_expr ctx (ast_Compare l c left ops comparators)
          = Inr (left_nested ''and'' cmp cmps))"
proof
  assume a: "sequence_err (map (build_expr ctx) (left # comparators)) = Inr operands \<and>
             length ops = length comparators \<and> ops \<noteq> []"
  then have len: "length operands = Suc (length ops)"
    using sequence_err_length [of "map (build_expr ctx) (left # comparators)" operands] by simp
  then have n: "length (pairwise_comparisons ctx operands ops) = length ops"
    by (rule length_pairwise_comparisons)
  with a obtain cmp cmps where pc: "pairwise_comparisons ctx operands ops = cmp # cmps"
    by (cases "pairwise_comparisons ctx operands ops") auto
  from len a obtain x y rest op ops' where
    operands: "operands = x # y # rest" and ops: "ops = op # ops'"
    by (cases operands; cases ops; cases "tl operands") auto
  have loop: "build_Compare_loop ctx (zip operands (zip ops (drop 1 operands))) None
                = Inr (Some (left_nested ''and'' cmp cmps))"
  proof -
    have "map (\<lambda>(lhs, op, rhs). pairwise_comparison ctx lhs op rhs) (zip (y # rest) (zip ops' rest))
            = pairwise_comparisons ctx (y # rest) ops'"
      using zip_pairwise_comparisons [of ctx "y # rest" ops'] by simp
    moreover have "cmp = pairwise_comparison ctx x op y"
      and "cmps = pairwise_comparisons ctx (y # rest) ops'"
      using pc by (simp_all add: operands ops)
    ultimately show ?thesis
      by (simp add: operands ops build_Compare_loop_None del: build_Compare_loop.simps)
  qed
  have "build_expr ctx (ast_Compare l c left ops comparators) = Inr (left_nested ''and'' cmp cmps)"
    using a loop by (simp del: sequence_err.simps)
  with pc n show "\<exists>cmp cmps. pairwise_comparisons ctx operands ops = cmp # cmps \<and>
        length (cmp # cmps) = length ops \<and>
        build_expr ctx (ast_Compare l c left ops comparators)
          = Inr (left_nested ''and'' cmp cmps)"
    by auto
qed

text \<open>\<^verbatim>\<open>a < b < c\<close> and \<^verbatim>\<open>a not in b\<close>.\<close>

theorem C1_Compare_witness:
  "build_expr (unit_of ''a < b < c'') (ast_Compare 1 0 (ast_Name 1 0 ''a'') [ast_Lt, ast_Lt]
       [ast_Name 1 4 ''b'', ast_Name 1 8 ''c''])
     = Inr (BinOp ''and''
              (BinOp ''<'' (Var (Ident (SourceRange 0 1) ''a'')) (Var (Ident (SourceRange 4 5) ''b'')))
              (BinOp ''<'' (Var (Ident (SourceRange 4 5) ''b'')) (Var (Ident (SourceRange 8 9) ''c''))))
   \<and> build_expr (unit_of ''a not in b'')
       (ast_Compare 1 0 (ast_Name 1 0 ''a'') [ast_NotIn] [ast_Name 1 9 ''b''])
     = Inr (UnaryOp (SourceRange 1 9) ''not''
              (BinOp ''in'' (Var (Ident (SourceRange 0 1) ''a'')) (Var (Ident (SourceRange 9 10) ''b''))))"
  using C1_Compare_desugars [of "unit_of ''a < b < c''" "ast_Name 1 0 ''a''"
          "[ast_Name 1 4 ''b'', ast_Name 1 8 ''c'']"
          "[Var (Ident (SourceRange 0 1) ''a''), Var (Ident (SourceRange 4 5) ''b''),
            Var (Ident (SourceRange 8 9) ''c'')]" "[ast_Lt, ast_Lt]" 1 0]
        C1_Compare_desugars [of "unit_of ''a not in b''" "ast_Name 1 0 ''a''" "[ast_Name 1 9 ''b'']"
          "[Var (Ident (SourceRange 0 1) ''a''), Var (Ident (SourceRange 9 10) ''b'')]"
          "[ast_NotIn]" 1 0]
  by (simp add: unit_of_def left_nested_def pairwise_comparison_def)

section \<open>Properties of boolean operator chains\<close>

text \<open>
  C2. A chain of \<^verbatim>\<open>and\<close> or \<^verbatim>\<open>or\<close> with at least two operands, all of which translate,
  becomes the nest to the left of the translated operands under the token of that
  operator: taking the result apart along its left spine gives back, after one node less
  than there are operands, the operands in their order. A chain with fewer than two
  operands ends with \<^verbatim>\<open>AssertionError\<close>, which is not a \<^verbatim>\<open>NotSupportedError\<close> and not a
  frontend error at all.
\<close>

theorem C2_BoolOp_left_fold:
  "(2 \<le> length vs \<and> sequence_err (map (build_expr ctx) vs) = Inr sub_exprs \<longrightarrow>
      (\<exists>first rest. sub_exprs = first # rest \<and>
         build_expr ctx (ast_BoolOp l c op vs) = Inr (left_nested (boolop_token op) first rest) \<and>
         unnest (boolop_token op) (length vs - 1) (left_nested (boolop_token op) first rest)
           = Some sub_exprs))
   \<and> (length vs < 2 \<longrightarrow>
      (\<exists>msg. build_expr ctx (ast_BoolOp l c op vs) = Inl (AssertionError msg) \<and>
         \<not> is_NotSupportedError (AssertionError msg) \<and> \<not> is_FrontendError (AssertionError msg)))"
proof (intro conjI impI)
  assume a: "2 \<le> length vs \<and> sequence_err (map (build_expr ctx) vs) = Inr sub_exprs"
  then have len: "length sub_exprs = length vs"
    using sequence_err_length [of "map (build_expr ctx) vs" sub_exprs] by simp
  with a obtain first rest where sub: "sub_exprs = first # rest"
    by (cases sub_exprs) auto
  have built: "build_expr ctx (ast_BoolOp l c op vs) = Inr (left_nested (boolop_token op) first rest)"
    using a by (simp add: sub boolop_map_token foldl_BinOp_left_nested)
  have "length vs - 1 = length rest"
    using len sub by simp
  then have "unnest (boolop_token op) (length vs - 1) (left_nested (boolop_token op) first rest)
               = Some sub_exprs"
    by (simp add: unnest_left_nested sub)
  with sub built
  show "\<exists>first rest. sub_exprs = first # rest \<and>
         build_expr ctx (ast_BoolOp l c op vs) = Inr (left_nested (boolop_token op) first rest) \<and>
         unnest (boolop_token op) (length vs - 1) (left_nested (boolop_token op) first rest)
           = Some sub_exprs"
    by blast
next
  assume "length vs < 2"
  then show "\<exists>msg. build_expr ctx (ast_BoolOp l c op vs) = Inl (AssertionError msg) \<and>
         \<not> is_NotSupportedError (AssertionError msg) \<and> \<not> is_FrontendError (AssertionError msg)"
    by simp
qed

text \<open>\<^verbatim>\<open>a or b or c\<close> and a chain of one operand.\<close>

theorem C2_BoolOp_witness:
  "build_expr (unit_of ''a or b or c'') (ast_BoolOp 1 0 ast_Or
       [ast_Name 1 0 ''a'', ast_Name 1 5 ''b'', ast_Name 1 10 ''c''])
     = Inr (BinOp ''or''
              (BinOp ''or'' (Var (Ident (SourceRange 0 1) ''a'')) (Var (Ident (SourceRange 5 6) ''b'')))
              (Var (Ident (SourceRange 10 11) ''c'')))
   \<and> (\<exists>msg. build_expr (unit_of ''a'') (ast_BoolOp 1 0 ast_Or [ast_Name 1 0 ''a''])
              = Inl (AssertionError msg))"
  using C2_BoolOp_left_fold [of "[ast_Name 1 0 ''a'', ast_Name 1 5 ''b'', ast_Name 1 10 ''c'']"
          "unit_of ''a or b or c''"
          "[Var (Ident (SourceRange 0 1) ''a''), Var (Ident (SourceRange 5 6) ''b''),
                   Var (Ident (SourceRange 10 11) ''c'')]" 1 0 ast_Or]
        C2_BoolOp_left_fold [of "[ast_Name 1 0 ''a'']" "unit_of ''a''" "[]" 1 0 ast_Or]
  by (simp add: unit_of_def left_nested_def)

section \<open>Properties of subscripts\<close>

text \<open>
  C3. A subscript whose base translates. If the index is a tuple display used as the
  plain index and its elements translate, the result is one \<^verbatim>\<open>Subscript\<close> node whose
  index sub-expressions are the translated elements, one for each element and in their
  order; when no element is itself a tuple or list display, it is the result of the
  subscript that has the elements as the plain index components of an extended slice.
  If a tuple or list display stands as an index component inside an extended slice, and
  the components before it translate, the translation ends with \<^verbatim>\<open>NotSupportedError\<close>
  over the range of the base.
\<close>

theorem C3_Subscript_tuple_index:
  "build_expr ctx v = Inr base \<longrightarrow>
     (sequence_err (map (build_expr ctx) elts) = Inr indices \<longrightarrow>
        build_expr ctx (ast_Subscript l c v (ast_Index (ast_Tuple tline tcol elts)))
          = Inr (Subscript base indices)
        \<and> length indices = length elts)
   \<and> ((\<forall>e\<in>set elts. \<not> is_Tuple e \<and> \<not> is_List e) \<longrightarrow>
        build_expr ctx (ast_Subscript l c v (ast_ExtSlice (map ast_Index elts)))
          = build_expr ctx (ast_Subscript l c v (ast_Index (ast_Tuple tline tcol elts))))
   \<and> (sequence_err (map (build_ExtSlice_dim ctx base) before) = Inr before' \<and>
      (is_Tuple iv \<or> is_List iv) \<longrightarrow>
        build_expr ctx (ast_Subscript l c v (ast_ExtSlice (before @ ast_Index iv # after)))
          = Inl (NotSupportedError (Some (range_of base))
                   ''slicing multiple dimensions with sequences not supported yet'')
        \<and> is_NotSupportedError
             (NotSupportedError (Some (range_of base))
                ''slicing multiple dimensions with sequences not supported yet''))"
proof (intro impI conjI)
  assume base: "build_expr ctx v = Inr base"
    and elts: "sequence_err (map (build_expr ctx) elts) = Inr indices"
  show "build_expr ctx (ast_Subscript l c v (ast_Index (ast_Tuple tline tcol elts)))
          = Inr (Subscript base indices)"
    using base elts by simp
  show "length indices = length elts"
    using sequence_err_length [OF elts] by simp
next
  assume base: "build_expr ctx v = Inr base"
    and plain: "\<forall>e\<in>set elts. \<not> is_Tuple e \<and> \<not> is_List e"
  then show "build_expr ctx (ast_Subscript l c v (ast_ExtSlice (map ast_Index elts)))
          = build_expr ctx (ast_Subscript l c v (ast_Index (ast_Tuple tline tcol elts)))"
    by (simp add: build_ExtSlice_plain_indices del: map_map)
next
  assume base: "build_expr ctx v = Inr base"
    and dims: "sequence_err (map (build_ExtSlice_dim ctx base) before) = Inr before' \<and>
               (is_Tuple iv \<or> is_List iv)"
  have dim: "build_ExtSlice_dim ctx base (ast_Index iv)
               = Inl (NotSupportedError (Some (range_of base))
                        ''slicing multiple dimensions with sequences not supported yet'')"
    using dims by auto
  have "sequence_err (map (build_ExtSlice_dim ctx base) (before @ ast_Index iv # after))
          = Inl (NotSupportedError (Some (range_of base))
                   ''slicing multiple dimensions with sequences not supported yet'')"
    using dims sequence_err_Inl_first [of "map (build_ExtSlice_dim ctx base) before" before']
    by (simp only: map_append list.map dim)
  then show "build_expr ctx (ast_Subscript l c v (ast_ExtSlice (before @ ast_Index iv # after)))
          = Inl (NotSupportedError (Some (range_of base))
                   ''slicing multiple dimensions with sequences not supported yet'')"
    using base by simp
next
  show "is_NotSupportedError
          (NotSupportedError (Some (range_of base))
             ''slicing multiple dimensions with sequences not supported yet'')"
    by simp
qed

text \<open>\<^verbatim>\<open>x[(i, j)]\<close>, and \<^verbatim>\<open>x[:, [i]]\<close> with a list display inside an extended slice.\<close>

theorem C3_Subscript_witness:
  "build_expr (unit_of ''x[(i, j)]'') (ast_Subscript 1 0 (ast_Name 1 0 ''x'')
       (ast_Index (ast_Tuple 1 2 [ast_Name 1 3 ''i'', ast_Name 1 6 ''j''])))
     = Inr (Subscript (Var (Ident (SourceRange 0 1) ''x''))
              [Var (Ident (SourceRange 3 4) ''i''), Var (Ident (SourceRange 6 7) ''j'')])
   \<and> build_expr (unit_of ''x[(i, j)]'') (ast_Subscript 1 0 (ast_Name 1 0 ''x'')
       (ast_ExtSlice [ast_Index (ast_Name 1 3 ''i''), ast_Index (ast_Name 1 6 ''j'')]))
     = Inr (Subscript (Var (Ident (SourceRange 0 1) ''x''))
              [Var (Ident (SourceRange 3 4) ''i''), Var (Ident (SourceRange 6 7) ''j'')])
   \<and> (\<exists>msg. build_expr (unit_of ''x[:, [i]]'') (ast_Subscript 1 0 (ast_Name 1 0 ''x'')
                (ast_ExtSlice [ast_Slice None None None, ast_Index (ast_List 1 5 [ast_Name 1 6 ''i''])]))
              = Inl (NotSupportedError (Some (SourceRange 0 1)) msg))"
  using C3_Subscript_tuple_index [of "unit_of ''x[(i, j)]''" "ast_Name 1 0 ''x''"
          "Var (Ident (SourceRange 0 1) ''x'')"
          "[ast_Name 1 3 ''i'', ast_Name 1 6 ''j'']"
          "[Var (Ident (SourceRange 3 4) ''i''), Var (Ident (SourceRange 6 7) ''j'')]"
          1 0 1 2]
        C3_Subscript_tuple_index [of "unit_of ''x[:, [i]]''" "ast_Name 1 0 ''x''"
          "Var (Ident (SourceRange 0 1) ''x'')" _ _ 1 0 _ _ "[ast_Slice None None None]"
          "[SliceExpr (SourceRange 0 1) None None None]" "ast_List 1 5 [ast_Name 1 6 ''i'']" "[]"]
  by (simp add: unit_of_def is_List_def is_Tuple_def)

section \<open>Properties of division\<close>

text \<open>
  C4. A division whose operands translate: without the true-division flag of the context
  the translation ends with a \<^verbatim>\<open>FrontendError\<close> that is not a \<^verbatim>\<open>NotSupportedError\<close>, over
  the gap from the end of the left operand's range to the start of the right operand's
  range, with the message about true division and \<^verbatim>\<open>from __future__ import division\<close>;
  with the flag it is the binary node under the token \<^verbatim>\<open>/\<close>.
\<close>

theorem C4_division_needs_true_division:
  "build_expr ctx left = Inr lhs \<and> build_expr ctx right = Inr rhs \<longrightarrow>
     (\<not> uses_true_division ctx \<longrightarrow>
        build_expr ctx (ast_BinOp l c left ast_Div right)
          = Inl (FrontendError
                   (Some (SourceRange (range_end (range_of lhs)) (range_start (range_of rhs))))
                   (''Division of ints in TorchScript uses Python 3 true division semantics. ''
                    @ ''Please put `from __future__ import division` at the top of your file''))
        \<and> \<not> is_NotSupportedError
               (FrontendError
                  (Some (SourceRange (range_end (range_of lhs)) (range_start (range_of rhs))))
                  (''Division of ints in TorchScript uses Python 3 true division semantics. ''
                   @ ''Please put `from __future__ import division` at the top of your file'')))
   \<and> (uses_true_division ctx \<longrightarrow>
        build_expr ctx (ast_BinOp l c left ast_Div right) = Inr (BinOp ''/'' lhs rhs))"
  by (simp add: make_raw_range_def)

text \<open>\<^verbatim>\<open>a / b\<close> in a unit without true division and in one with it.\<close>

theorem C4_division_witness:
  "(\<exists>msg. build_expr (unit_floor ''a / b'') (ast_BinOp 1 0 (ast_Name 1 0 ''a'') ast_Div (ast_Name 1 4 ''b''))
            = Inl (FrontendError (Some (SourceRange 1 4)) msg))
   \<and> build_expr (unit_of ''a / b'') (ast_BinOp 1 0 (ast_Name 1 0 ''a'') ast_Div (ast_Name 1 4 ''b''))
       = Inr (BinOp ''/'' (Var (Ident (SourceRange 0 1) ''a'')) (Var (Ident (SourceRange 4 5) ''b'')))"
  using C4_division_needs_true_division [of "unit_floor ''a / b''" "ast_Name 1 0 ''a''"
          "Var (Ident (SourceRange 0 1) ''a'')" "ast_Name 1 4 ''b''"
          "Var (Ident (SourceRange 4 5) ''b'')" 1 0]
        C4_division_needs_true_division [of "unit_of ''a / b''" "ast_Name 1 0 ''a''"
          "Var (Ident (SourceRange 0 1) ''a'')" "ast_Name 1 4 ''b''"
          "Var (Ident (SourceRange 4 5) ''b'')" 1 0]
  by (simp add: unit_of_def unit_floor_def)

section \<open>Properties of unary operators\<close>

text \<open>
  C5. The translation of \<^verbatim>\<open>+x\<close>: the operator is not in \<^verbatim>\<open>unop_map\<close>, and the handler
  takes the length of the missing token before it tests for it, so the translation ends
  with \<^verbatim>\<open>TypeError\<close>, which is no \<^verbatim>\<open>NotSupportedError\<close> and carries no range.
\<close>

theorem C5_unary_plus_TypeError:
  "build_expr (unit_of ''+x'') (ast_UnaryOp 1 0 ast_UAdd (ast_Name 1 1 ''x'')) = Inl TypeError
   \<and> \<not> is_NotSupportedError TypeError \<and> \<not> is_FrontendError TypeError
   \<and> error_range TypeError = None"
  by simp

section \<open>Properties of expression statements\<close>

text \<open>
  C6. A body that starts with a string literal as the parser gives it in a \<^verbatim>\<open>Constant\<close>
  node: the class of the node is not named \<^verbatim>\<open>Str\<close>, so the statement is not dropped;
  it is translated through \<^verbatim>\<open>build_Constant\<close> and \<^verbatim>\<open>build_Str\<close> into an expression
  statement of a string literal, and the body keeps its length. The same literal in a
  \<^verbatim>\<open>Str\<close> node is dropped.
\<close>

theorem C6_Constant_docstring_kept:
  "build_stmts docstring_unit [ast_Expr 1 0 (ast_Constant 1 0 (CStr ''doc'')), ast_Pass 1 7]
     = Inr [ExprStmt (StringLiteral (SourceRange 0 1) ''doc''), Pass (SourceRange 7 11)]
   \<and> build_stmts docstring_unit [ast_Expr 1 0 (ast_Str 1 0 ''doc''), ast_Pass 1 7]
     = Inr [Pass (SourceRange 7 11)]"
  by (simp add: docstring_unit_def unit_of_def class_name_def build_Constant_def build_Str_def)

section \<open>Properties of augmented assignment\<close>

text \<open>
  C7. An augmented assignment whose target and value translate. With one of the five
  operators \<^verbatim>\<open>+ - * / %\<close> it becomes an \<^verbatim>\<open>AugAssign\<close> node under that token. With any
  other operator, when \<^verbatim>\<open>=\<close> occurs in the text before the start of the range of the
  translated value, the translation ends with \<^verbatim>\<open>NotSupportedError\<close>; its range is found
  from the nearest \<^verbatim>\<open>=\<close> before that start (no \<^verbatim>\<open>=\<close> stands between the two) and
  covers it, from one position before it to right after it.
\<close>

theorem C7_AugAssign_operators:
  "build_expr ctx target = Inr lhs \<and> build_expr ctx v = Inr rhs \<longrightarrow>
     (op \<in> {ast_Add, ast_Sub, ast_Mult, ast_Div, ast_Mod} \<longrightarrow>
        (\<exists>tok. binop_map op = Some tok \<and>
           build_stmt ctx (ast_AugAssign l c target op v) = Inr (Some (AugAssign lhs tok rhs))))
   \<and> (op \<notin> {ast_Add, ast_Sub, ast_Mult, ast_Div, ast_Mod} \<and>
      0 \<le> range_start (range_of rhs) \<and>
      CHR ''='' \<in> set (take (nat (range_start (range_of rhs))) (source ctx)) \<longrightarrow>
        (\<exists>p. build_stmt ctx (ast_AugAssign l c target op v)
               = Inl (NotSupportedError (Some (SourceRange (int p - 1) (int p + 1)))
                        (''unsupported kind of augumented assignment: '' @ operator_name op))
           \<and> int p < range_start (range_of rhs) \<and> p < length (source ctx)
           \<and> source ctx ! p = CHR ''=''
           \<and> (\<forall>q. p < q \<and> int q < range_start (range_of rhs) \<and> q < length (source ctx)
                  \<longrightarrow> source ctx ! q \<noteq> CHR ''='')
           \<and> int p - 1 \<le> int p \<and> int p < int p + 1))"
proof (intro impI conjI)
  assume built: "build_expr ctx target = Inr lhs \<and> build_expr ctx v = Inr rhs"
    and op: "op \<in> {ast_Add, ast_Sub, ast_Mult, ast_Div, ast_Mod}"
  from op built
  show "\<exists>tok. binop_map op = Some tok \<and>
           build_stmt ctx (ast_AugAssign l c target op v) = Inr (Some (AugAssign lhs tok rhs))"
    by auto
next
  assume built: "build_expr ctx target = Inr lhs \<and> build_expr ctx v = Inr rhs"
    and other: "op \<notin> {ast_Add, ast_Sub, ast_Mult, ast_Div, ast_Mod} \<and>
      0 \<le> range_start (range_of rhs) \<and>
      CHR ''='' \<in> set (take (nat (range_start (range_of rhs))) (source ctx))"
  define pos where "pos = range_start (range_of rhs)"
  define t where "t = take (nat pos) (source ctx)"
  have none: "augassign_map op = None"
    using other by (cases op) simp_all
  have t: "slice_to (source ctx) pos = t"
    using other by (simp add: slice_to_def t_def pos_def)
  from other obtain p where p: "rindex t ''='' = Some p"
    using rindex_char_occurs [of "CHR ''=''" t] by (auto simp: t_def pos_def)
  from rindex_char_Some [OF p]
  have p_lt: "p < length t" and p_eq: "t ! p = CHR ''=''"
    and p_last: "\<forall>q. p < q \<and> q < length t \<longrightarrow> t ! q \<noteq> CHR ''=''"
    by auto
  have fb: "find_before ctx pos ''='' (- 1, 0) = Inr (SourceRange (int p - 1) (int p + 1))"
    by (simp add: find_before_def t p make_raw_range_def)
  have stmt: "build_stmt ctx (ast_AugAssign l c target op v)
               = Inl (NotSupportedError (Some (SourceRange (int p - 1) (int p + 1)))
                        (''unsupported kind of augumented assignment: '' @ operator_name op))"
    using built none fb by (simp add: pos_def)
  have p_pos: "int p < pos" and p_len: "p < length (source ctx)"
    using p_lt by (auto simp: t_def)
  have p_src: "source ctx ! p = CHR ''=''"
    using p_eq p_lt by (simp add: t_def)
  have last: "\<forall>q. p < q \<and> int q < pos \<and> q < length (source ctx) \<longrightarrow> source ctx ! q \<noteq> CHR ''=''"
  proof (intro allI impI)
    fix q
    assume q: "p < q \<and> int q < pos \<and> q < length (source ctx)"
    then have "q < nat pos" by linarith
    with q have "q < length t" by (simp add: t_def)
    with p_last q have "t ! q \<noteq> CHR ''=''" by blast
    with \<open>q < nat pos\<close> show "source ctx ! q \<noteq> CHR ''=''" by (simp add: t_def)
  qed
  from stmt p_pos p_len p_src last
  show "\<exists>p. build_stmt ctx (ast_AugAssign l c target op v)
               = Inl (NotSupportedError (Some (SourceRange (int p - 1) (int p + 1)))
                        (''unsupported kind of augumented assignment: '' @ operator_name op))
           \<and> int p < range_start (range_of rhs) \<and> p < length (source ctx)
           \<and> source ctx ! p = CHR ''=''
           \<and> (\<forall>q. p < q \<and> int q < range_start (range_of rhs) \<and> q < length (source ctx)
                  \<longrightarrow> source ctx ! q \<noteq> CHR ''='')
           \<and> int p - 1 \<le> int p \<and> int p < int p + 1"
    unfolding pos_def by (intro exI [of _ p]) simp
qed

text \<open>\<^verbatim>\<open>x += 2\<close> is accepted; for \<^verbatim>\<open>x **= 2\<close> the range is that of \<^verbatim>\<open>*=\<close>.\<close>

theorem C7_AugAssign_witness:
  "build_stmt (unit_of ''x += 2'')
       (ast_AugAssign 1 0 (ast_Name 1 0 ''x'') ast_Add (ast_Num 1 5 (CInt 2)))
     = Inr (Some (AugAssign (Var (Ident (SourceRange 0 1) ''x'')) ''+'' (Const (SourceRange 5 6) ''2'')))
   \<and> (\<exists>p. build_stmt (unit_of ''x **= 2'')
               (ast_AugAssign 1 0 (ast_Name 1 0 ''x'') ast_Pow (ast_Num 1 6 (CInt 2)))
            = Inl (NotSupportedError (Some (SourceRange (int p - 1) (int p + 1)))
                     ''unsupported kind of augumented assignment: Pow'')
          \<and> source (unit_of ''x **= 2'') ! p = CHR ''='')
   \<and> build_stmt (unit_of ''x **= 2'')
       (ast_AugAssign 1 0 (ast_Name 1 0 ''x'') ast_Pow (ast_Num 1 6 (CInt 2)))
     = Inl (NotSupportedError (Some (SourceRange 3 5))
              ''unsupported kind of augumented assignment: Pow'')"
proof -
  have num: "build_expr (unit_of ''x **= 2'') (ast_Num 1 6 (CInt 2))
               = Inr (Const (SourceRange 6 7) ''2'')"
    and num': "build_expr (unit_of ''x += 2'') (ast_Num 1 5 (CInt 2))
               = Inr (Const (SourceRange 5 6) ''2'')"
    by (simp_all add: build_Num_def unit_of_def str_int_def)
  have name: "build_expr (unit_of ''x **= 2'') (ast_Name 1 0 ''x'')
                = Inr (Var (Ident (SourceRange 0 1) ''x''))"
    and name': "build_expr (unit_of ''x += 2'') (ast_Name 1 0 ''x'')
                = Inr (Var (Ident (SourceRange 0 1) ''x''))"
    by (simp_all add: unit_of_def)
  have occurs: "CHR ''='' \<in> set (take (nat (range_start (range_of (Const (SourceRange 6 7) ''2''))))
                                   (source (unit_of ''x **= 2'')))"
    by (simp add: unit_of_def)
  have add: "build_stmt (unit_of ''x += 2'')
       (ast_AugAssign 1 0 (ast_Name 1 0 ''x'') ast_Add (ast_Num 1 5 (CInt 2)))
     = Inr (Some (AugAssign (Var (Ident (SourceRange 0 1) ''x'')) ''+'' (Const (SourceRange 5 6) ''2'')))"
    using C7_AugAssign_operators [of "unit_of ''x += 2''" "ast_Name 1 0 ''x''"
            "Var (Ident (SourceRange 0 1) ''x'')"
            "ast_Num 1 5 (CInt 2)" "Const (SourceRange 5 6) ''2''" ast_Add 1 0] name' num'
    by simp
  from C7_AugAssign_operators [of "unit_of ''x **= 2''" "ast_Name 1 0 ''x''"
         "Var (Ident (SourceRange 0 1) ''x'')"
         "ast_Num 1 6 (CInt 2)" "Const (SourceRange 6 7) ''2''" ast_Pow 1 0] name num occurs
  obtain p where
    "build_stmt (unit_of ''x **= 2'')
         (ast_AugAssign 1 0 (ast_Name 1 0 ''x'') ast_Pow (ast_Num 1 6 (CInt 2)))
       = Inl (NotSupportedError (Some (SourceRange (int p - 1) (int p + 1)))
                (''unsupported kind of augumented assignment: '' @ operator_name ast_Pow))"
    and "source (unit_of ''x **= 2'') ! p = CHR ''=''"
    by auto
  then have star: "\<exists>p. build_stmt (unit_of ''x **= 2'')
            (ast_AugAssign 1 0 (ast_Name 1 0 ''x'') ast_Pow (ast_Num 1 6 (CInt 2)))
          = Inl (NotSupportedError (Some (SourceRange (int p - 1) (int p + 1)))
                   ''unsupported kind of augumented assignment: Pow'')
        \<and> source (unit_of ''x **= 2'') ! p = CHR ''=''"
    by auto
  have pow: "build_stmt (unit_of ''x **= 2'')
       (ast_AugAssign 1 0 (ast_Name 1 0 ''x'') ast_Pow (ast_Num 1 6 (CInt 2)))
     = Inl (NotSupportedError (Some (SourceRange 3 5))
              ''unsupported kind of augumented assignment: Pow'')"
  proof -
    have "rindex ''x **= '' ''='' = Some 4"
      by (simp add: rindex_def upt_rec)
    then have "find_before (unit_of ''x **= 2'') 6 ''='' (- 1, 0) = Inr (SourceRange 3 5)"
      by (simp add: find_before_def slice_to_def unit_of_def make_raw_range_def)
    with name num show ?thesis
      by simp
  qed
  show ?thesis
    by (rule conjI [OF add conjI [OF star pow]])
qed

section \<open>Properties of parameter lists\<close>

text \<open>
  C8. A parameter list with a variadic keyword parameter, or without one but with a
  variadic positional parameter, ends with \<^verbatim>\<open>NotSupportedError\<close> over a range that covers
  the span of that parameter's name. Without variadic parameters, when a keyword-only
  parameter has a default and the first such default translates, it ends with
  \<^verbatim>\<open>NotSupportedError\<close> over the range of that translated default. Without variadic
  parameters and without keyword-only defaults, when the parameters translate, the result
  is one list: the ordinary parameters, flagged \<^verbatim>\<open>False\<close>, followed by the keyword-only
  ones, flagged \<^verbatim>\<open>True\<close>, under their names and in their order.
\<close>

theorem C8_param_list:
  "(kwarg py_args = Some kw \<longrightarrow>
      build_param_list ctx py_args self_name
        = Inl (NotSupportedError (Some (variadic_range ctx kw)) vararg_kwarg_err)
      \<and> covers (variadic_range ctx kw) (arg_name_span ctx kw))
   \<and> (kwarg py_args = None \<and> vararg py_args = Some va \<longrightarrow>
      build_param_list ctx py_args self_name
        = Inl (NotSupportedError (Some (variadic_range ctx va)) vararg_kwarg_err)
      \<and> covers (variadic_range ctx va) (arg_name_span ctx va))
   \<and> (kwarg py_args = None \<and> vararg py_args = None \<and>
      kw_defaults py_args = replicate n None @ Some d # rest \<and> build_expr ctx d = Inr d' \<longrightarrow>
      build_param_list ctx py_args self_name
        = Inl (NotSupportedError (Some (range_of d')) vararg_kwarg_err))
   \<and> (kwarg py_args = None \<and> vararg py_args = None \<and> set (kw_defaults py_args) \<subseteq> {None} \<and>
      sequence_err (map (\<lambda>a. build_param ctx a self_name False) (args py_args)) = Inr ps \<and>
      sequence_err (map (\<lambda>a. build_param ctx a self_name True) (kwonlyargs py_args)) = Inr ks
      \<longrightarrow>
      build_param_list ctx py_args self_name = Inr (ps @ ks)
      \<and> map param_name (ps @ ks) = map arg_name (args py_args @ kwonlyargs py_args)
      \<and> map param_kwarg_only (ps @ ks)
          = replicate (length (args py_args)) False @ replicate (length (kwonlyargs py_args)) True)"
proof (intro conjI impI)
  assume "kwarg py_args = Some kw"
  then show "build_param_list ctx py_args self_name
        = Inl (NotSupportedError (Some (variadic_range ctx kw)) vararg_kwarg_err)"
    by (simp add: build_param_list_def)
next
  show "covers (variadic_range ctx kw) (arg_name_span ctx kw)"
    by (rule variadic_range_covers)
next
  assume "kwarg py_args = None \<and> vararg py_args = Some va"
  then show "build_param_list ctx py_args self_name
        = Inl (NotSupportedError (Some (variadic_range ctx va)) vararg_kwarg_err)"
    by (simp add: build_param_list_def)
next
  show "covers (variadic_range ctx va) (arg_name_span ctx va)"
    by (rule variadic_range_covers)
next
  assume "kwarg py_args = None \<and> vararg py_args = None \<and>
      kw_defaults py_args = replicate n None @ Some d # rest \<and> build_expr ctx d = Inr d'"
  then show "build_param_list ctx py_args self_name
        = Inl (NotSupportedError (Some (range_of d')) vararg_kwarg_err)"
    by (simp add: build_param_list_def first_not_None_replicate)
next
  assume a: "kwarg py_args = None \<and> vararg py_args = None \<and> set (kw_defaults py_args) \<subseteq> {None} \<and>
      sequence_err (map (\<lambda>a. build_param ctx a self_name False) (args py_args)) = Inr ps \<and>
      sequence_err (map (\<lambda>a. build_param ctx a self_name True) (kwonlyargs py_args)) = Inr ks"
  then have none: "first_not_None (kw_defaults py_args) = None"
    by (simp add: first_not_None_all_None)
  from a none show "build_param_list ctx py_args self_name = Inr (ps @ ks)"
    by (simp add: build_param_list_def)
  from a build_params_Inr [of ctx self_name False "args py_args" ps]
    build_params_Inr [of ctx self_name True "kwonlyargs py_args" ks]
  show "map param_name (ps @ ks) = map arg_name (args py_args @ kwonlyargs py_args)"
    and "map param_kwarg_only (ps @ ks)
          = replicate (length (args py_args)) False @ replicate (length (kwonlyargs py_args)) True"
    by simp_all
qed

text \<open>
  \<^verbatim>\<open>def f(x, **kw)\<close>, \<^verbatim>\<open>def f(x, *a)\<close>, \<^verbatim>\<open>def f(x, *, y=3)\<close> and \<^verbatim>\<open>def f(x, *, y)\<close>,
  each on one line.
\<close>

theorem C8_param_list_witness:
  "build_param_list (unit_of ''def f(x, **kw): pass'')
      \<lparr>args = [ast_arg 1 6 ''x'' None], vararg = None, kwonlyargs = [], kw_defaults = [],
       kwarg = Some (ast_arg 1 11 ''kw'' None), defaults = []\<rparr> None
     = Inl (NotSupportedError (Some (SourceRange 10 13)) vararg_kwarg_err)
   \<and> build_param_list (unit_of ''def f(x, *a): pass'')
      \<lparr>args = [ast_arg 1 6 ''x'' None], vararg = Some (ast_arg 1 10 ''a'' None), kwonlyargs = [],
       kw_defaults = [], kwarg = None, defaults = []\<rparr> None
     = Inl (NotSupportedError (Some (SourceRange 9 11)) vararg_kwarg_err)
   \<and> build_param_list (unit_of ''def f(x, *, y=3): pass'')
      \<lparr>args = [ast_arg 1 6 ''x'' None], vararg = None, kwonlyargs = [ast_arg 1 12 ''y'' None],
       kw_defaults = [Some (ast_Num 1 14 (CInt 3))], kwarg = None, defaults = []\<rparr> None
     = Inl (NotSupportedError (Some (SourceRange 14 15)) vararg_kwarg_err)
   \<and> build_param_list (unit_of ''def f(x, *, y): pass'')
      \<lparr>args = [ast_arg 1 6 ''x'' None], vararg = None, kwonlyargs = [ast_arg 1 12 ''y'' None],
       kw_defaults = [None], kwarg = None, defaults = []\<rparr> None
     = Inr [Param (EmptyTypeAnnotation (SourceRange 6 7)) (Ident (SourceRange 6 7) ''x'') False,
            Param (EmptyTypeAnnotation (SourceRange 12 13)) (Ident (SourceRange 12 13) ''y'') True]"
proof -
  have num: "build_expr (unit_of ''def f(x, *, y=3): pass'') (ast_Num 1 14 (CInt 3)) = Inr (Const (SourceRange 14 15) ''3'')"
    by (simp add: build_Num_def unit_of_def str_int_def)
  have x: "build_param (unit_of ''def f(x, *, y): pass'') (ast_arg 1 6 ''x'' None) None False
             = Inr (Param (EmptyTypeAnnotation (SourceRange 6 7)) (Ident (SourceRange 6 7) ''x'') False)"
    by (simp add: build_param_def unit_of_def Let_def)
  have y: "build_param (unit_of ''def f(x, *, y): pass'') (ast_arg 1 12 ''y'' None) None True
             = Inr (Param (EmptyTypeAnnotation (SourceRange 12 13)) (Ident (SourceRange 12 13) ''y'') True)"
    by (simp add: build_param_def unit_of_def Let_def)
  have r1: "variadic_range (unit_of ''def f(x, **kw): pass'') (ast_arg 1 11 ''kw'' None)
              = SourceRange 10 13"
    and r2: "variadic_range (unit_of ''def f(x, *a): pass'') (ast_arg 1 10 ''a'' None)
              = SourceRange 9 11"
    by (simp_all add: variadic_range_def unit_of_def)
  have c1: "build_param_list (unit_of ''def f(x, **kw): pass'')
      \<lparr>args = [ast_arg 1 6 ''x'' None], vararg = None, kwonlyargs = [], kw_defaults = [],
       kwarg = Some (ast_arg 1 11 ''kw'' None), defaults = []\<rparr> None
     = Inl (NotSupportedError (Some (SourceRange 10 13)) vararg_kwarg_err)"
    using C8_param_list [of "\<lparr>args = [ast_arg 1 6 ''x'' None], vararg = None, kwonlyargs = [],
       kw_defaults = [], kwarg = Some (ast_arg 1 11 ''kw'' None), defaults = []\<rparr>"
       "ast_arg 1 11 ''kw'' None" "unit_of ''def f(x, **kw): pass''" None]
    by (simp add: r1)
  have c2: "build_param_list (unit_of ''def f(x, *a): pass'')
      \<lparr>args = [ast_arg 1 6 ''x'' None], vararg = Some (ast_arg 1 10 ''a'' None), kwonlyargs = [],
       kw_defaults = [], kwarg = None, defaults = []\<rparr> None
     = Inl (NotSupportedError (Some (SourceRange 9 11)) vararg_kwarg_err)"
    using C8_param_list [of "\<lparr>args = [ast_arg 1 6 ''x'' None],
       vararg = Some (ast_arg 1 10 ''a'' None), kwonlyargs = [],
       kw_defaults = [], kwarg = None, defaults = []\<rparr>"
       _ "unit_of ''def f(x, *a): pass''" None "ast_arg 1 10 ''a'' None"]
    by (simp add: r2)
  have c3: "build_param_list (unit_of ''def f(x, *, y=3): pass'')
      \<lparr>args = [ast_arg 1 6 ''x'' None], vararg = None, kwonlyargs = [ast_arg 1 12 ''y'' None],
       kw_defaults = [Some (ast_Num 1 14 (CInt 3))], kwarg = None, defaults = []\<rparr> None
     = Inl (NotSupportedError (Some (SourceRange 14 15)) vararg_kwarg_err)"
    using C8_param_list [of "\<lparr>args = [ast_arg 1 6 ''x'' None], vararg = None,
       kwonlyargs = [ast_arg 1 12 ''y'' None],
       kw_defaults = [Some (ast_Num 1 14 (CInt 3))], kwarg = None, defaults = []\<rparr>"
       _ "unit_of ''def f(x, *, y=3): pass''" None _ 0 "ast_Num 1 14 (CInt 3)" "[]" "Const (SourceRange 14 15) ''3''"] num
    by simp
  have c4: "build_param_list (unit_of ''def f(x, *, y): pass'')
      \<lparr>args = [ast_arg 1 6 ''x'' None], vararg = None, kwonlyargs = [ast_arg 1 12 ''y'' None],
       kw_defaults = [None], kwarg = None, defaults = []\<rparr> None
     = Inr [Param (EmptyTypeAnnotation (SourceRange 6 7)) (Ident (SourceRange 6 7) ''x'') False,
            Param (EmptyTypeAnnotation (SourceRange 12 13)) (Ident (SourceRange 12 13) ''y'') True]"
    using C8_param_list [of "\<lparr>args = [ast_arg 1 6 ''x'' None], vararg = None,
       kwonlyargs = [ast_arg 1 12 ''y'' None],
       kw_defaults = [None], kwarg = None, defaults = []\<rparr>"
       _ "unit_of ''def f(x, *, y): pass''" None _ _ _ _ _
       "[Param (EmptyTypeAnnotation (SourceRange 6 7)) (Ident (SourceRange 6 7) ''x'') False]"
       "[Param (EmptyTypeAnnotation (SourceRange 12 13)) (Ident (SourceRange 12 13) ''y'') True]"]
      x y
    by simp
  show ?thesis
    by (rule conjI [OF c1 conjI [OF c2 conjI [OF c3 c4]]])
qed

section \<open>Properties of the ranges of the produced views\<close>

text \<open>
  C9, as stated, fails. The list comprehension \<^verbatim>\<open>[x for x in y]\<close> is translated into a
  view whose range is empty: it starts and ends at offset 0. The float literal \<^verbatim>\<open>1e3\<close>,
  whose value prints as \<^verbatim>\<open>1000.0\<close>, is translated into a view whose range ends at
  offset 6, beyond the three characters of the text.
\<close>

theorem C9_ranges_counterexample:
  "build_expr (unit_of ''[x for x in y]'')
       (ast_ListComp 1 0 (ast_Name 1 1 ''x'')
          [ast_comprehension (ast_Name 1 7 ''x'') (ast_Name 1 12 ''y'') []])
     = Inr (ListComp (SourceRange 0 0) (Var (Ident (SourceRange 1 2) ''x''))
              (Var (Ident (SourceRange 7 8) ''x'')) (Var (Ident (SourceRange 12 13) ''y'')))
   \<and> range_start (range_of (ListComp (SourceRange 0 0) (Var (Ident (SourceRange 1 2) ''x''))
              (Var (Ident (SourceRange 7 8) ''x'')) (Var (Ident (SourceRange 12 13) ''y''))))
     = range_end (range_of (ListComp (SourceRange 0 0) (Var (Ident (SourceRange 1 2) ''x''))
              (Var (Ident (SourceRange 7 8) ''x'')) (Var (Ident (SourceRange 12 13) ''y''))))
   \<and> build_expr (unit_of ''1e3'') (ast_Num 1 0 (CFloat ''1000.0''))
     = Inr (Const (SourceRange 0 6) ''1000.0'')
   \<and> int (length (source (unit_of ''1e3''))) < range_end (range_of (Const (SourceRange 0 6) ''1000.0''))"
  by (simp add: unit_of_def build_Num_def)

text \<open>
  C9, amended. An expression of a kind whose handler takes the range from the position
  of the node, and a statement whose view is built with a range, are translated, when
  the translation succeeds, into a view whose range is the one the context makes for
  the line of the node, from the column of the node to a column further right: it starts
  at the offset of the line and column of the node and is not empty. The range of the
  view of a list comprehension starts at that offset as well; nothing is said about its
  width, nor about where a range ends in the text.
\<close>

theorem C9_ranges_amended:
  "(build_expr ctx e = Inr t \<and> own_range_kind e \<longrightarrow>
      (\<exists>w. 0 < w \<and>
         range_of t = make_range ctx (lineno e) (col_offset e) (col_offset e + w))
      \<and> range_start (range_of t) = node_offset ctx (lineno e) (col_offset e)
      \<and> range_start (range_of t) < range_end (range_of t))
   \<and> (build_stmt ctx s = Inr (Some st) \<and> stmt_range st = Some r \<longrightarrow>
      (\<exists>w. 0 < w \<and>
         r = make_range ctx (stmt_lineno s) (stmt_col_offset s) (stmt_col_offset s + w))
      \<and> range_start r = node_offset ctx (stmt_lineno s) (stmt_col_offset s)
      \<and> range_start r < range_end r)
   \<and> (build_expr ctx (ast_ListComp l c elt generators) = Inr lc \<longrightarrow>
      range_start (range_of lc) = node_offset ctx l c)"
proof (intro conjI impI)
  assume a: "build_expr ctx e = Inr t \<and> own_range_kind e"
  then obtain w where w: "0 < w"
    and t: "range_of t = make_range ctx (lineno e) (col_offset e) (col_offset e + w)"
    using own_range_expr [of ctx e t] by blast
  from w t
  show "\<exists>w. 0 < w \<and> range_of t = make_range ctx (lineno e) (col_offset e) (col_offset e + w)"
    by blast
  show "range_start (range_of t) = node_offset ctx (lineno e) (col_offset e)"
    by (simp add: t make_range_start)
  show "range_start (range_of t) < range_end (range_of t)"
    using w by (simp add: t make_range_nonempty)
next
  assume a: "build_stmt ctx s = Inr (Some st) \<and> stmt_range st = Some r"
  then obtain w where w: "0 < w"
    and r: "r = make_range ctx (stmt_lineno s) (stmt_col_offset s) (stmt_col_offset s + w)"
    using own_range_stmt [of ctx s st r] by blast
  from w r
  show "\<exists>w. 0 < w \<and>
          r = make_range ctx (stmt_lineno s) (stmt_col_offset s) (stmt_col_offset s + w)"
    by blast
  show "range_start r = node_offset ctx (stmt_lineno s) (stmt_col_offset s)"
    by (simp add: r make_range_start)
  show "range_start r < range_end r"
    using w by (simp add: r make_range_nonempty)
next
  assume a: "build_expr ctx (ast_ListComp l c elt generators) = Inr lc"
  then have lc: "range_of lc = make_range ctx l c c"
    by (auto simp: bind_err_Inr_iff Let_def split: if_splits list.splits comprehension.splits)
  show "range_start (range_of lc) = node_offset ctx l c"
    by (simp add: lc make_range_start)
qed

text \<open>The display \<^verbatim>\<open>[]\<close>, the statement \<^verbatim>\<open>pass\<close> and the comprehension \<^verbatim>\<open>[x for x in y]\<close>.\<close>

theorem C9_ranges_witness:
  "build_expr (unit_of ''[]'') (ast_List 1 0 []) = Inr (ListLiteral (SourceRange 0 1) [])
   \<and> range_start (SourceRange 0 1) < range_end (SourceRange 0 1)
   \<and> build_stmt (unit_of ''pass'') (ast_Pass 1 0) = Inr (Some (Pass (SourceRange 0 4)))
   \<and> range_start (SourceRange 0 4) < range_end (SourceRange 0 4)
   \<and> (\<exists>lc. build_expr (unit_of ''[x for x in y]'')
               (ast_ListComp 1 0 (ast_Name 1 1 ''x'')
                  [ast_comprehension (ast_Name 1 7 ''x'') (ast_Name 1 12 ''y'') []]) = Inr lc
           \<and> range_start (range_of lc) = node_offset (unit_of ''[x for x in y]'') 1 0)"
  using C9_ranges_amended [of "unit_of ''[]''" "ast_List 1 0 []" "ListLiteral (SourceRange 0 1) []"]
        C9_ranges_amended [of "unit_of ''pass''" _ _ "ast_Pass 1 0" "Pass (SourceRange 0 4)"
          "SourceRange 0 4"]
        C9_ranges_amended [of "unit_of ''[x for x in y]''" _ _ _ _ _
          1 0 "ast_Name 1 1 ''x''" "[ast_comprehension (ast_Name 1 7 ''x'') (ast_Name 1 12 ''y'') []]"
          "ListComp (SourceRange 0 0) (Var (Ident (SourceRange 1 2) ''x''))
              (Var (Ident (SourceRange 7 8) ''x'')) (Var (Ident (SourceRange 12 13) ''y''))"]
  by (simp add: unit_of_def node_offset_def)

section \<open>Properties of a raise without an exception\<close>

text \<open>
  C10. A \<^verbatim>\<open>raise\<close> statement without an exception expression: the handler passes the
  missing expression to \<^verbatim>\<open>build_expr\<close>, whose dispatch finds no handler for it, and the
  constructor of the error to be raised fails itself. The translation returns no tree
  view, and it ends with \<^verbatim>\<open>AttributeError\<close>, which is none of the frontend errors.
\<close>

theorem C10_bare_raise_escapes:
  "build_expr_node ctx None = Inl AttributeError
   \<and> build_stmt ctx (ast_Raise l c None) = Inl AttributeError
   \<and> \<not> is_FrontendError AttributeError"
  by (simp add: UnsupportedNodeError_init_def)

text \<open>A bare \<^verbatim>\<open>raise\<close> on the first line of a unit.\<close>

theorem C10_bare_raise_witness:
  "build_stmt (unit_of ''raise'') (ast_Raise 1 0 None) = Inl AttributeError"
  using C10_bare_raise_escapes [of "unit_of ''raise''" 1 0]
  by simp

end
